theory Spec2Isabelle
  imports Main
begin

section \<open>Data model\<close>

text \<open>
  The persisted entities of \<^verbatim>\<open>chat/models.py\<close> and \<^verbatim>\<open>accounts/models.py\<close>, the
  events the consumers of \<^verbatim>\<open>chat/consumers.py\<close> hand to the channel layer, and the
  state all of them act on.

  Conventions of the embedding:
  \<^item> a timestamp is a natural number; every operation that reads the clock
    (\<^verbatim>\<open>django.utils.timezone.now()\<close>, \<^verbatim>\<open>auto_now\<close>, \<^verbatim>\<open>auto_now_add\<close>) takes the
    current time as its first argument \<open>now\<close>;
  \<^item> a table is a map from the primary key to the row, so a row has no \<open>id\<close> field;
    an object together with its primary key is a pair \<open>(id, row)\<close>;
  \<^item> the row of a user is looked up in a total map: the user of a session is a row
    of the store for as long as the session lives;
  \<^item> a Python exception that leaves a method is a value of type \<open>error\<close>, returned
    together with the state reached when it was raised;
  \<^item> strings are lists of characters with code points below 256.
  The fields \<^verbatim>\<open>message_type\<close> and \<^verbatim>\<open>file_attachment\<close> of the two message models are
  never written by the code embedded here after creation and are left out.
\<close>

type_synonym timestamp = nat

datatype error =
    AttributeError
  | TypeError
  | ValueError
  | IntegrityError
  | ChannelLayerError

record user =
  uid :: nat
  username :: string
  is_online :: bool
  status :: string
  last_seen :: timestamp

text \<open>\<^verbatim>\<open>scope['user']\<close>: the middleware stores a \<^verbatim>\<open>User\<close> or an \<^verbatim>\<open>AnonymousUser\<close>.\<close>

datatype identity = AnonymousUser | AuthUser user

record message =
  room :: nat
  sender :: nat
  content :: string
  reply_to :: "int option"
  is_edited :: bool
  edited_at :: "timestamp option"
  is_deleted :: bool
  deleted_at :: "timestamp option"
  created_at :: timestamp
  updated_at :: timestamp

record direct_message =
  dm_sender :: nat
  dm_recipient :: nat
  dm_content :: string
  dm_is_read :: bool
  dm_read_at :: "timestamp option"
  dm_is_edited :: bool
  dm_edited_at :: "timestamp option"
  dm_is_deleted :: bool
  dm_deleted_at :: "timestamp option"
  dm_created_at :: timestamp
  dm_updated_at :: timestamp

text \<open>
  \<^verbatim>\<open>Conversation\<close>: the participants in the order the query set yields them, and the
  last message.
\<close>

record conversation =
  participants :: "nat list"
  last_message :: "int option"
  conv_updated_at :: timestamp

text \<open>
  The payloads of \<^verbatim>\<open>channel_layer.group_send\<close>, one constructor per \<^verbatim>\<open>'type'\<close>.
  The serialized message of an event is represented by the object that was
  serialized: its key and its fields after the mutation.
\<close>

datatype room_event =
    ChatMessage "int \<times> message"
  | TypingIndicator string bool
  | MessageReaction "int option" "string option" string string
  | MessageEdited "int \<times> message"
  | MessageDeleted "int option"

datatype direct_event =
    DirectMessage "int \<times> direct_message"
  | DirectTypingIndicator string bool
  | MessagesRead "int list" string

text \<open>What \<^verbatim>\<open>self.send\<close> writes to the socket: an event, or \<^verbatim>\<open>{'error': ...}\<close>.\<close>

datatype 'e out_frame = Frame 'e | ErrorReply string

record chat_consumer =
  cc_user :: identity
  cc_room_id :: nat
  cc_accepted :: bool
  cc_closed :: bool
  cc_outbox :: "room_event out_frame list"

record direct_consumer =
  dc_user :: identity
  dc_conversation_id :: nat
  dc_accepted :: bool
  dc_closed :: bool
  dc_outbox :: "direct_event out_frame list"

text \<open>
  The state: the tables of the store, the channel layer and the live consumers.

  \<^item> \<open>rooms\<close> maps the key of a \<^verbatim>\<open>ChatRoom\<close> to the ids of its members
    (the \<^verbatim>\<open>ChatRoomMembership\<close> rows of the room);
  \<^item> \<open>message_seq\<close> and \<open>direct_message_seq\<close> are the last keys the store handed out;
  \<^item> \<open>reactions\<close> holds the \<^verbatim>\<open>MessageReaction\<close> rows as triples (message, user, kind);
  \<^item> the groups of the channel layer are named \<^verbatim>\<open>chat_<room_id>\<close> and
    \<^verbatim>\<open>direct_<conversation_id>\<close>: \<open>chat_groups\<close> and \<open>direct_groups\<close> map the id in the
    name to the channel names in the group, and a consumer is stored under its channel
    name;
  \<^item> \<open>layer_ok\<close> says whether a call to the channel layer returns; when it is false
    the call raises;
  \<^item> \<open>chat_sent\<close> and \<open>direct_sent\<close> log every \<^verbatim>\<open>group_send\<close> that returned, with its
    group.
\<close>

record world =
  users :: "nat \<Rightarrow> user"
  rooms :: "nat \<rightharpoonup> nat set"
  conversations :: "nat \<rightharpoonup> conversation"
  messages :: "int \<rightharpoonup> message"
  message_seq :: int
  reactions :: "(int \<times> nat \<times> string) list"
  direct_messages :: "int \<rightharpoonup> direct_message"
  direct_message_seq :: int
  layer_ok :: bool
  chat_groups :: "nat \<Rightarrow> nat set"
  direct_groups :: "nat \<Rightarrow> nat set"
  chat_sent :: "(nat \<times> room_event) list"
  direct_sent :: "(nat \<times> direct_event) list"
  chat_consumers :: "nat \<rightharpoonup> chat_consumer"
  direct_consumers :: "nat \<rightharpoonup> direct_consumer"

section \<open>Model methods\<close>

subsection \<open>\<^verbatim>\<open>accounts/models.py\<close>: \<^verbatim>\<open>User\<close>\<close>

text \<open>
  \<^verbatim>\<open>save(update_fields=[...])\<close> writes the named fields of the object in memory to the
  row; the other fields of the row stay as they are.
\<close>

definition update_last_seen :: "timestamp \<Rightarrow> user \<Rightarrow> world \<Rightarrow> user \<times> world" where
  "update_last_seen now u w =
     (let u' = u\<lparr>last_seen := now\<rparr>
      in (u', w\<lparr>users := (users w)(uid u' := (users w (uid u'))\<lparr>last_seen := last_seen u'\<rparr>)\<rparr>))"

definition set_online_status :: "timestamp \<Rightarrow> bool \<Rightarrow> user \<Rightarrow> world \<Rightarrow> user \<times> world" where
  "set_online_status now online u w =
     (let u1 = u\<lparr>is_online := online,
                 status := (if online then ''online'' else ''offline'')\<rparr>;
          (u2, w1) = (if online then update_last_seen now u1 w else (u1, w))
      in (u2, w1\<lparr>users := (users w1)(uid u2 := (users w1 (uid u2))
                    \<lparr>is_online := is_online u2, status := status u2,
                     last_seen := last_seen u2\<rparr>)\<rparr>))"

subsection \<open>\<^verbatim>\<open>chat/models.py\<close>: \<^verbatim>\<open>Message\<close> and \<^verbatim>\<open>DirectMessage\<close>\<close>

text \<open>\<^verbatim>\<open>save()\<close> sets \<^verbatim>\<open>updated_at\<close> (\<^verbatim>\<open>auto_now\<close>) and writes every field to the row.\<close>

definition Message_save :: "timestamp \<Rightarrow> int \<times> message \<Rightarrow> world \<Rightarrow> (int \<times> message) \<times> world" where
  "Message_save now obj w =
     (let m = (snd obj)\<lparr>updated_at := now\<rparr>
      in ((fst obj, m), w\<lparr>messages := (messages w)(fst obj \<mapsto> m)\<rparr>))"

definition Message_edit_message ::
  "timestamp \<Rightarrow> string \<Rightarrow> int \<times> message \<Rightarrow> world \<Rightarrow> (int \<times> message) \<times> world" where
  "Message_edit_message now new_content obj w =
     Message_save now
       (fst obj, (snd obj)\<lparr>content := new_content, is_edited := True, edited_at := Some now\<rparr>) w"

definition Message_delete_message ::
  "timestamp \<Rightarrow> int \<times> message \<Rightarrow> world \<Rightarrow> (int \<times> message) \<times> world" where
  "Message_delete_message now obj w =
     Message_save now
       (fst obj, (snd obj)\<lparr>is_deleted := True, deleted_at := Some now,
                           content := ''This message was deleted''\<rparr>) w"

definition DirectMessage_save ::
  "timestamp \<Rightarrow> int \<times> direct_message \<Rightarrow> world \<Rightarrow> (int \<times> direct_message) \<times> world" where
  "DirectMessage_save now obj w =
     (let m = (snd obj)\<lparr>dm_updated_at := now\<rparr>
      in ((fst obj, m), w\<lparr>direct_messages := (direct_messages w)(fst obj \<mapsto> m)\<rparr>))"

definition DirectMessage_edit_message ::
  "timestamp \<Rightarrow> string \<Rightarrow> int \<times> direct_message \<Rightarrow> world \<Rightarrow> (int \<times> direct_message) \<times> world" where
  "DirectMessage_edit_message now new_content obj w =
     DirectMessage_save now
       (fst obj, (snd obj)\<lparr>dm_content := new_content, dm_is_edited := True,
                           dm_edited_at := Some now\<rparr>) w"

definition DirectMessage_delete_message ::
  "timestamp \<Rightarrow> int \<times> direct_message \<Rightarrow> world \<Rightarrow> (int \<times> direct_message) \<times> world" where
  "DirectMessage_delete_message now obj w =
     DirectMessage_save now
       (fst obj, (snd obj)\<lparr>dm_is_deleted := True, dm_deleted_at := Some now,
                           dm_content := ''This message was deleted''\<rparr>) w"

text \<open>
  \<^verbatim>\<open>Conversation.get_other_participant\<close>:
  \<^verbatim>\<open>self.participants.exclude(id=user.id).first()\<close>.
\<close>

definition get_other_participant :: "conversation \<Rightarrow> nat \<Rightarrow> nat option" where
  "get_other_participant c u =
     (case filter (\<lambda>p. p \<noteq> u) (participants c) of [] \<Rightarrow> None | p # _ \<Rightarrow> Some p)"

section \<open>Inbound frames\<close>

text \<open>
  \<^verbatim>\<open>receive\<close> is given the text of one frame and decodes it with \<^verbatim>\<open>json.loads\<close>.
  A text frame is represented by what decoding makes of it: \<open>Malformed\<close> when
  \<^verbatim>\<open>json.loads\<close> raises \<^verbatim>\<open>JSONDecodeError\<close>, \<open>NonObject\<close> when it yields a value
  that is not a dictionary (a list, a string, a number, a boolean or \<^verbatim>\<open>null\<close>), and
  otherwise the dictionary, with the keys the handlers read. \<open>Binary\<close> is a binary
  frame: the framework passes it as the keyword argument \<^verbatim>\<open>bytes_data\<close>, which
  \<^verbatim>\<open>receive(self, text_data)\<close> does not take. A key that is absent is \<open>None\<close>. The values are typed as the protocol has
  them: the tag, the content, the reaction kind and the action are strings, the ids
  integers, \<^verbatim>\<open>is_typing\<close> a boolean, \<^verbatim>\<open>message_ids\<close> a list of integers.
\<close>

record frame =
  f_type :: "string option"
  f_content :: "string option"
  f_reply_to :: "int option"
  f_is_typing :: "bool option"
  f_message_id :: "int option"
  f_reaction_type :: "string option"
  f_action :: "string option"
  f_message_ids :: "int list option"

datatype inbound = Malformed | NonObject | Binary | Object frame

text \<open>\<^verbatim>\<open>data.get(key, default)\<close>.\<close>

definition get_or :: "'a option \<Rightarrow> 'a \<Rightarrow> 'a" where
  "get_or v d = (case v of None \<Rightarrow> d | Some x \<Rightarrow> x)"

text \<open>
  \<^verbatim>\<open>str.strip()\<close> removes leading and trailing whitespace; below code point 256 the
  characters with \<^verbatim>\<open>str.isspace()\<close> are 9 to 13, 28 to 32, 133 and 160.
\<close>

definition isspace :: "char \<Rightarrow> bool" where
  "isspace c \<longleftrightarrow> (of_char c :: nat) \<in> {9, 10, 11, 12, 13, 28, 29, 30, 31, 32, 133, 160}"

definition strip :: "string \<Rightarrow> string" where
  "strip s = rev (dropWhile isspace (rev (dropWhile isspace s)))"

text \<open>\<^verbatim>\<open>self.user.username\<close>; an \<^verbatim>\<open>AnonymousUser\<close> has the empty username.\<close>

definition username_of :: "identity \<Rightarrow> string" where
  "username_of i = (case i of AnonymousUser \<Rightarrow> [] | AuthUser u \<Rightarrow> username u)"

section \<open>\<^verbatim>\<open>ChatConsumer\<close>\<close>

subsection \<open>Handlers of group events\<close>

text \<open>
  The methods the channel layer calls on a consumer of the group, by the \<^verbatim>\<open>'type'\<close>
  of the event; each returns what the consumer sends to its own socket.
\<close>

definition chat_message :: "chat_consumer \<Rightarrow> int \<times> message \<Rightarrow> room_event out_frame list" where
  "chat_message self msg = [Frame (ChatMessage msg)]"

definition ChatConsumer_typing_indicator ::
  "chat_consumer \<Rightarrow> string \<Rightarrow> bool \<Rightarrow> room_event out_frame list" where
  "ChatConsumer_typing_indicator self usr is_typing =
     (if usr \<noteq> username_of (cc_user self) then [Frame (TypingIndicator usr is_typing)] else [])"

definition message_reaction ::
  "chat_consumer \<Rightarrow> int option \<Rightarrow> string option \<Rightarrow> string \<Rightarrow> string \<Rightarrow> room_event out_frame list" where
  "message_reaction self message_id reaction_type action usr =
     [Frame (MessageReaction message_id reaction_type action usr)]"

definition message_edited :: "chat_consumer \<Rightarrow> int \<times> message \<Rightarrow> room_event out_frame list" where
  "message_edited self msg = [Frame (MessageEdited msg)]"

definition message_deleted :: "chat_consumer \<Rightarrow> int option \<Rightarrow> room_event out_frame list" where
  "message_deleted self message_id = [Frame (MessageDeleted message_id)]"

fun ChatConsumer_dispatch :: "chat_consumer \<Rightarrow> room_event \<Rightarrow> room_event out_frame list" where
  "ChatConsumer_dispatch self (ChatMessage msg) = chat_message self msg"
| "ChatConsumer_dispatch self (TypingIndicator usr t) = ChatConsumer_typing_indicator self usr t"
| "ChatConsumer_dispatch self (MessageReaction i k a usr) = message_reaction self i k a usr"
| "ChatConsumer_dispatch self (MessageEdited msg) = message_edited self msg"
| "ChatConsumer_dispatch self (MessageDeleted i) = message_deleted self i"

subsection \<open>Channel layer and socket\<close>

text \<open>
  \<^verbatim>\<open>group_send\<close> hands the event to every consumer whose channel is in the group at the
  moment of the call; here each of them handles it at once, appending what its
  handler sends to its outbox.
\<close>

definition chat_group_add :: "nat \<Rightarrow> nat \<Rightarrow> world \<Rightarrow> error option \<times> world" where
  "chat_group_add g ch w =
     (if \<not> layer_ok w then (Some ChannelLayerError, w)
      else (None, w\<lparr>chat_groups := (chat_groups w)(g := insert ch (chat_groups w g))\<rparr>))"

definition chat_group_discard :: "nat \<Rightarrow> nat \<Rightarrow> world \<Rightarrow> error option \<times> world" where
  "chat_group_discard g ch w =
     (if \<not> layer_ok w then (Some ChannelLayerError, w)
      else (None, w\<lparr>chat_groups := (chat_groups w)(g := chat_groups w g - {ch})\<rparr>))"

definition chat_group_send :: "nat \<Rightarrow> room_event \<Rightarrow> world \<Rightarrow> error option \<times> world" where
  "chat_group_send g ev w =
     (if \<not> layer_ok w then (Some ChannelLayerError, w)
      else (None, w\<lparr>chat_sent := chat_sent w @ [(g, ev)],
                     chat_consumers := (\<lambda>ch.
                       case chat_consumers w ch of
                         None \<Rightarrow> None
                       | Some c \<Rightarrow>
                           if ch \<in> chat_groups w g
                           then Some (c\<lparr>cc_outbox := cc_outbox c @ ChatConsumer_dispatch c ev\<rparr>)
                           else Some c)\<rparr>))"

text \<open>\<^verbatim>\<open>self.send\<close>, \<^verbatim>\<open>self.accept\<close> and \<^verbatim>\<open>self.close\<close> of the consumer on channel \<open>ch\<close>.\<close>

definition chat_send :: "nat \<Rightarrow> room_event out_frame \<Rightarrow> world \<Rightarrow> world" where
  "chat_send ch fr w =
     w\<lparr>chat_consumers := (\<lambda>c. if c = ch
          then map_option (\<lambda>self. self\<lparr>cc_outbox := cc_outbox self @ [fr]\<rparr>) (chat_consumers w c)
          else chat_consumers w c)\<rparr>"

definition chat_accept :: "nat \<Rightarrow> world \<Rightarrow> world" where
  "chat_accept ch w =
     w\<lparr>chat_consumers := (\<lambda>c. if c = ch
          then map_option (\<lambda>self. self\<lparr>cc_accepted := True\<rparr>) (chat_consumers w c)
          else chat_consumers w c)\<rparr>"

definition chat_close :: "nat \<Rightarrow> world \<Rightarrow> world" where
  "chat_close ch w =
     w\<lparr>chat_consumers := (\<lambda>c. if c = ch
          then map_option (\<lambda>self. self\<lparr>cc_closed := True\<rparr>) (chat_consumers w c)
          else chat_consumers w c)\<rparr>"

subsection \<open>Database operations\<close>

definition is_room_member :: "chat_consumer \<Rightarrow> world \<Rightarrow> bool" where
  "is_room_member self w =
     (case rooms w (cc_room_id self) of
        None \<Rightarrow> False
      | Some members \<Rightarrow>
          (case cc_user self of AnonymousUser \<Rightarrow> False | AuthUser u \<Rightarrow> uid u \<in> members))"

text \<open>
  \<^verbatim>\<open>Message.objects.create\<close>: the store hands out the next key; a key that is taken
  is a violated constraint.
\<close>

definition Message_objects_create ::
  "timestamp \<Rightarrow> nat \<Rightarrow> nat \<Rightarrow> string \<Rightarrow> int option \<Rightarrow> world \<Rightarrow> (error + int \<times> message) \<times> world" where
  "Message_objects_create now r s c rt w =
     (let i = message_seq w + 1;
          m = \<lparr>room = r, sender = s, content = c, reply_to = rt, is_edited = False,
               edited_at = None, is_deleted = False, deleted_at = None,
               created_at = now, updated_at = now\<rparr>
      in if messages w i \<noteq> None then (Inl IntegrityError, w)
         else (Inr (i, m), w\<lparr>messages := (messages w)(i \<mapsto> m), message_seq := i\<rparr>))"

text \<open>
  \<^verbatim>\<open>Message.objects.get(id=..., room_id=...)\<close> and
  \<^verbatim>\<open>Message.objects.get(id=..., room_id=..., sender=...)\<close>; \<open>None\<close> is
  \<^verbatim>\<open>Message.DoesNotExist\<close>. An id that is \<^verbatim>\<open>None\<close> matches no row.
\<close>

definition Message_get_in_room :: "int option \<Rightarrow> nat \<Rightarrow> world \<Rightarrow> (int \<times> message) option" where
  "Message_get_in_room message_id r w =
     (case message_id of
        None \<Rightarrow> None
      | Some i \<Rightarrow>
          (case messages w i of
             None \<Rightarrow> None
           | Some m \<Rightarrow> if room m = r then Some (i, m) else None))"

definition Message_get_own :: "int option \<Rightarrow> nat \<Rightarrow> nat \<Rightarrow> world \<Rightarrow> (int \<times> message) option" where
  "Message_get_own message_id r s w =
     (case Message_get_in_room message_id r w of
        None \<Rightarrow> None
      | Some (i, m) \<Rightarrow> if sender m = s then Some (i, m) else None)"

text \<open>
  \<^verbatim>\<open>save_message\<close>. \<^verbatim>\<open>if reply_to_id:\<close> is false for \<^verbatim>\<open>None\<close> and for 0. Assigning an
  \<^verbatim>\<open>AnonymousUser\<close> to the \<^verbatim>\<open>sender\<close> of a new row raises \<^verbatim>\<open>ValueError\<close>.
\<close>

definition save_message ::
  "timestamp \<Rightarrow> chat_consumer \<Rightarrow> string \<Rightarrow> int option \<Rightarrow> world
     \<Rightarrow> (error + (int \<times> message) option) \<times> world" where
  "save_message now self c reply_to_id w =
     (case rooms w (cc_room_id self) of
        None \<Rightarrow> (Inr None, w)
      | Some _ \<Rightarrow>
          (let rt = (if reply_to_id = None \<or> reply_to_id = Some 0 then None
                     else map_option fst (Message_get_in_room reply_to_id (cc_room_id self) w))
           in case cc_user self of
                AnonymousUser \<Rightarrow> (Inl ValueError, w)
              | AuthUser u \<Rightarrow>
                  (case Message_objects_create now (cc_room_id self) (uid u) c rt w of
                     (Inl e, w') \<Rightarrow> (Inl e, w')
                   | (Inr obj, w') \<Rightarrow> (Inr (Some obj), w'))))"

text \<open>
  \<^verbatim>\<open>MessageSerializer.get_reaction_counts\<close> of \<^verbatim>\<open>chat/serializers.py\<close> evaluates
  \<^verbatim>\<open>models.Count('reaction_type')\<close>. The name \<^verbatim>\<open>models\<close> of that module is bound by
  \<^verbatim>\<open>from chat_project.accounts import models\<close>: it is the module
  \<^verbatim>\<open>accounts/models.py\<close>, which has no attribute \<^verbatim>\<open>Count\<close>, so the method raises
  \<^verbatim>\<open>AttributeError\<close> for every message.
\<close>

definition get_reaction_counts :: "int \<times> message \<Rightarrow> error + (string \<times> nat) list" where
  "get_reaction_counts obj = Inl AttributeError"

text \<open>
  \<^verbatim>\<open>serialize_message\<close>: \<^verbatim>\<open>MessageSerializer(message).data\<close> reads the fields of the
  object it is given and calls \<^verbatim>\<open>get_reaction_counts\<close> for the field
  \<^verbatim>\<open>reaction_counts\<close>; an exception of that method leaves the serializer.
\<close>

definition serialize_message :: "int \<times> message \<Rightarrow> error + int \<times> message" where
  "serialize_message obj =
     (case get_reaction_counts obj of Inl e \<Rightarrow> Inl e | Inr counts \<Rightarrow> Inr obj)"

text \<open>
  \<^verbatim>\<open>MessageReaction.objects.get_or_create\<close> and the consumer's
  \<^verbatim>\<open>add_message_reaction\<close> and \<^verbatim>\<open>remove_message_reaction\<close>. The table has the
  constraint \<^verbatim>\<open>unique_together = ['message', 'user', 'reaction_type']\<close> and a kind
  that is not null: creating a row with the kind \<^verbatim>\<open>None\<close> raises \<^verbatim>\<open>IntegrityError\<close>.
  A user that is anonymous is refused by the query (\<^verbatim>\<open>TypeError\<close>).
\<close>

definition MessageReaction_get_or_create ::
  "int \<Rightarrow> nat \<Rightarrow> string option \<Rightarrow> world \<Rightarrow> (error + (int \<times> nat \<times> string) \<times> bool) \<times> world" where
  "MessageReaction_get_or_create i u kind w =
     (case kind of
        None \<Rightarrow> (Inl IntegrityError, w)
      | Some k \<Rightarrow>
          if (i, u, k) \<in> set (reactions w) then (Inr ((i, u, k), False), w)
          else (Inr ((i, u, k), True), w\<lparr>reactions := reactions w @ [(i, u, k)]\<rparr>))"

definition add_message_reaction ::
  "chat_consumer \<Rightarrow> int option \<Rightarrow> string option \<Rightarrow> world
     \<Rightarrow> (error + (int \<times> nat \<times> string) option) \<times> world" where
  "add_message_reaction self message_id reaction_type w =
     (case Message_get_in_room message_id (cc_room_id self) w of
        None \<Rightarrow> (Inr None, w)
      | Some (i, m) \<Rightarrow>
          (case cc_user self of
             AnonymousUser \<Rightarrow> (Inl TypeError, w)
           | AuthUser u \<Rightarrow>
               (case MessageReaction_get_or_create i (uid u) reaction_type w of
                  (Inl e, w') \<Rightarrow> (Inl e, w')
                | (Inr (reaction, created), w') \<Rightarrow>
                    (Inr (if created then Some reaction else None), w'))))"

definition remove_message_reaction ::
  "chat_consumer \<Rightarrow> int option \<Rightarrow> string option \<Rightarrow> world \<Rightarrow> error option \<times> world" where
  "remove_message_reaction self message_id reaction_type w =
     (case Message_get_in_room message_id (cc_room_id self) w of
        None \<Rightarrow> (None, w)
      | Some (i, m) \<Rightarrow>
          (case cc_user self of
             AnonymousUser \<Rightarrow> (Some TypeError, w)
           | AuthUser u \<Rightarrow>
               (None, w\<lparr>reactions :=
                   filter (\<lambda>r. Some r \<noteq> map_option (\<lambda>k. (i, uid u, k)) reaction_type)
                     (reactions w)\<rparr>)))"

text \<open>
  The consumer's \<^verbatim>\<open>edit_message\<close> and \<^verbatim>\<open>delete_message\<close>: the row is looked up by id,
  room and sender, nothing else.
\<close>

definition ChatConsumer_edit_message ::
  "timestamp \<Rightarrow> chat_consumer \<Rightarrow> int option \<Rightarrow> string \<Rightarrow> world
     \<Rightarrow> (error + (int \<times> message) option) \<times> world" where
  "ChatConsumer_edit_message now self message_id new_content w =
     (case cc_user self of
        AnonymousUser \<Rightarrow> (Inl TypeError, w)
      | AuthUser u \<Rightarrow>
          (case Message_get_own message_id (cc_room_id self) (uid u) w of
             None \<Rightarrow> (Inr None, w)
           | Some obj \<Rightarrow>
               (let (obj', w') = Message_edit_message now new_content obj w
                in (Inr (Some obj'), w'))))"

definition ChatConsumer_delete_message ::
  "timestamp \<Rightarrow> chat_consumer \<Rightarrow> int option \<Rightarrow> world
     \<Rightarrow> (error + (int \<times> message) option) \<times> world" where
  "ChatConsumer_delete_message now self message_id w =
     (case cc_user self of
        AnonymousUser \<Rightarrow> (Inl TypeError, w)
      | AuthUser u \<Rightarrow>
          (case Message_get_own message_id (cc_room_id self) (uid u) w of
             None \<Rightarrow> (Inr None, w)
           | Some obj \<Rightarrow>
               (let (obj', w') = Message_delete_message now obj w
                in (Inr (Some obj'), w'))))"

text \<open>
  \<^verbatim>\<open>update_user_status\<close>: \<^verbatim>\<open>self.user.set_online_status(is_online)\<close> changes the user
  object of the consumer and its row. An \<^verbatim>\<open>AnonymousUser\<close> has no such method.
\<close>

definition update_user_status :: "timestamp \<Rightarrow> nat \<Rightarrow> bool \<Rightarrow> world \<Rightarrow> error option \<times> world" where
  "update_user_status now ch online w =
     (case chat_consumers w ch of
        None \<Rightarrow> (None, w)
      | Some self \<Rightarrow>
          (case cc_user self of
             AnonymousUser \<Rightarrow> (Some AttributeError, w)
           | AuthUser u \<Rightarrow>
               (let (u', w') = set_online_status now online u w
                in (None, w'\<lparr>chat_consumers :=
                      (chat_consumers w')(ch \<mapsto> self\<lparr>cc_user := AuthUser u'\<rparr>)\<rparr>))))"

subsection \<open>Handlers of inbound frames\<close>

text \<open>
  Each handler is given the consumer \<open>self\<close> (its user and its room) and the decoded
  frame. The group of a consumer is \<^verbatim>\<open>chat_<room_id>\<close>, so the room id is the key of
  its group.
\<close>

definition handle_chat_message ::
  "timestamp \<Rightarrow> chat_consumer \<Rightarrow> frame \<Rightarrow> world \<Rightarrow> error option \<times> world" where
  "handle_chat_message now self data w =
     (let c = strip (get_or (f_content data) []);
          reply_to_id = f_reply_to data
      in if c = [] then (None, w)
         else (case save_message now self c reply_to_id w of
                 (Inl e, w') \<Rightarrow> (Some e, w')
               | (Inr None, w') \<Rightarrow> (None, w')
               | (Inr (Some obj), w') \<Rightarrow>
                   (case serialize_message obj of
                      Inl e \<Rightarrow> (Some e, w')
                    | Inr message_data \<Rightarrow>
                        chat_group_send (cc_room_id self) (ChatMessage message_data) w')))"

definition ChatConsumer_handle_typing ::
  "chat_consumer \<Rightarrow> frame \<Rightarrow> world \<Rightarrow> error option \<times> world" where
  "ChatConsumer_handle_typing self data w =
     (let is_typing = get_or (f_is_typing data) False
      in chat_group_send (cc_room_id self)
           (TypingIndicator (username_of (cc_user self)) is_typing) w)"

definition handle_message_reaction ::
  "chat_consumer \<Rightarrow> frame \<Rightarrow> world \<Rightarrow> error option \<times> world" where
  "handle_message_reaction self data w =
     (let message_id = f_message_id data;
          reaction_type = f_reaction_type data;
          action = get_or (f_action data) ''add'';
          (err, w') =
            (if action = ''add''
             then (case add_message_reaction self message_id reaction_type w of
                     (Inl e, w1) \<Rightarrow> (Some e, w1)
                   | (Inr reaction, w1) \<Rightarrow> (None, w1))
             else remove_message_reaction self message_id reaction_type w)
      in case err of
           Some e \<Rightarrow> (Some e, w')
         | None \<Rightarrow>
             chat_group_send (cc_room_id self)
               (MessageReaction message_id reaction_type action (username_of (cc_user self))) w')"

definition handle_message_edit ::
  "timestamp \<Rightarrow> chat_consumer \<Rightarrow> frame \<Rightarrow> world \<Rightarrow> error option \<times> world" where
  "handle_message_edit now self data w =
     (let message_id = f_message_id data;
          new_content = strip (get_or (f_content data) [])
      in if new_content = [] then (None, w)
         else (case ChatConsumer_edit_message now self message_id new_content w of
                 (Inl e, w') \<Rightarrow> (Some e, w')
               | (Inr None, w') \<Rightarrow> (None, w')
               | (Inr (Some obj), w') \<Rightarrow>
                   (case serialize_message obj of
                      Inl e \<Rightarrow> (Some e, w')
                    | Inr message_data \<Rightarrow>
                        chat_group_send (cc_room_id self) (MessageEdited message_data) w')))"

definition handle_message_delete ::
  "timestamp \<Rightarrow> chat_consumer \<Rightarrow> frame \<Rightarrow> world \<Rightarrow> error option \<times> world" where
  "handle_message_delete now self data w =
     (let message_id = f_message_id data
      in case ChatConsumer_delete_message now self message_id w of
           (Inl e, w') \<Rightarrow> (Some e, w')
         | (Inr None, w') \<Rightarrow> (None, w')
         | (Inr (Some obj), w') \<Rightarrow>
             chat_group_send (cc_room_id self) (MessageDeleted message_id) w')"

subsection \<open>Lifecycle and dispatch\<close>

text \<open>
  \<^verbatim>\<open>connect\<close> on channel \<open>ch\<close>, with the room id of the route and the user of the
  scope, which it stores in the new consumer; \<^verbatim>\<open>disconnect\<close>; \<^verbatim>\<open>receive\<close>. A channel
  without a consumer runs no code.
\<close>

definition new_chat_consumer :: "identity \<Rightarrow> nat \<Rightarrow> chat_consumer" where
  "new_chat_consumer usr rid =
     \<lparr>cc_user = usr, cc_room_id = rid, cc_accepted = False, cc_closed = False,
      cc_outbox = []\<rparr>"

definition ChatConsumer_connect ::
  "timestamp \<Rightarrow> nat \<Rightarrow> nat \<Rightarrow> identity \<Rightarrow> world \<Rightarrow> error option \<times> world" where
  "ChatConsumer_connect now ch rid usr w =
     (let self = new_chat_consumer usr rid;
          w0 = w\<lparr>chat_consumers := (chat_consumers w)(ch \<mapsto> self)\<rparr>
      in if \<not> is_room_member self w0 then (None, chat_close ch w0)
         else (case chat_group_add rid ch w0 of
                 (Some e, w1) \<Rightarrow> (Some e, w1)
               | (None, w1) \<Rightarrow> update_user_status now ch True (chat_accept ch w1)))"

definition ChatConsumer_disconnect :: "timestamp \<Rightarrow> nat \<Rightarrow> world \<Rightarrow> error option \<times> world" where
  "ChatConsumer_disconnect now ch w =
     (case chat_consumers w ch of
        None \<Rightarrow> (None, w)
      | Some self \<Rightarrow>
          (case chat_group_discard (cc_room_id self) ch w of
             (Some e, w1) \<Rightarrow> (Some e, w1)
           | (None, w1) \<Rightarrow> update_user_status now ch False w1))"

definition ChatConsumer_receive ::
  "timestamp \<Rightarrow> nat \<Rightarrow> inbound \<Rightarrow> world \<Rightarrow> error option \<times> world" where
  "ChatConsumer_receive now ch text_data w =
     (case chat_consumers w ch of
        None \<Rightarrow> (None, w)
      | Some self \<Rightarrow>
          (case text_data of
             Malformed \<Rightarrow> (None, chat_send ch (ErrorReply ''Invalid JSON'') w)
           | NonObject \<Rightarrow> (Some AttributeError, w)
           | Binary \<Rightarrow> (Some TypeError, w)
           | Object data \<Rightarrow>
               (let message_type = f_type data
                in if message_type = Some ''chat_message'' then handle_chat_message now self data w
                   else if message_type = Some ''typing'' then ChatConsumer_handle_typing self data w
                   else if message_type = Some ''message_reaction''
                     then handle_message_reaction self data w
                   else if message_type = Some ''message_edit''
                     then handle_message_edit now self data w
                   else if message_type = Some ''message_delete''
                     then handle_message_delete now self data w
                   else (None, w))))"

section \<open>\<^verbatim>\<open>DirectMessageConsumer\<close>\<close>

subsection \<open>Handlers of group events\<close>

definition direct_message ::
  "direct_consumer \<Rightarrow> int \<times> direct_message \<Rightarrow> direct_event out_frame list" where
  "direct_message self msg = [Frame (DirectMessage msg)]"

definition DirectMessageConsumer_typing_indicator ::
  "direct_consumer \<Rightarrow> string \<Rightarrow> bool \<Rightarrow> direct_event out_frame list" where
  "DirectMessageConsumer_typing_indicator self usr is_typing =
     (if usr \<noteq> username_of (dc_user self) then [Frame (DirectTypingIndicator usr is_typing)]
      else [])"

definition messages_read ::
  "direct_consumer \<Rightarrow> int list \<Rightarrow> string \<Rightarrow> direct_event out_frame list" where
  "messages_read self message_ids usr =
     (if usr \<noteq> username_of (dc_user self) then [Frame (MessagesRead message_ids usr)] else [])"

fun DirectMessageConsumer_dispatch ::
  "direct_consumer \<Rightarrow> direct_event \<Rightarrow> direct_event out_frame list" where
  "DirectMessageConsumer_dispatch self (DirectMessage msg) = direct_message self msg"
| "DirectMessageConsumer_dispatch self (DirectTypingIndicator usr t) =
     DirectMessageConsumer_typing_indicator self usr t"
| "DirectMessageConsumer_dispatch self (MessagesRead ids usr) = messages_read self ids usr"

subsection \<open>Channel layer and socket\<close>

definition direct_group_add :: "nat \<Rightarrow> nat \<Rightarrow> world \<Rightarrow> error option \<times> world" where
  "direct_group_add g ch w =
     (if \<not> layer_ok w then (Some ChannelLayerError, w)
      else (None, w\<lparr>direct_groups := (direct_groups w)(g := insert ch (direct_groups w g))\<rparr>))"

definition direct_group_discard :: "nat \<Rightarrow> nat \<Rightarrow> world \<Rightarrow> error option \<times> world" where
  "direct_group_discard g ch w =
     (if \<not> layer_ok w then (Some ChannelLayerError, w)
      else (None, w\<lparr>direct_groups := (direct_groups w)(g := direct_groups w g - {ch})\<rparr>))"

definition direct_group_send :: "nat \<Rightarrow> direct_event \<Rightarrow> world \<Rightarrow> error option \<times> world" where
  "direct_group_send g ev w =
     (if \<not> layer_ok w then (Some ChannelLayerError, w)
      else (None, w\<lparr>direct_sent := direct_sent w @ [(g, ev)],
                     direct_consumers := (\<lambda>ch.
                       case direct_consumers w ch of
                         None \<Rightarrow> None
                       | Some c \<Rightarrow>
                           if ch \<in> direct_groups w g
                           then Some (c\<lparr>dc_outbox :=
                                   dc_outbox c @ DirectMessageConsumer_dispatch c ev\<rparr>)
                           else Some c)\<rparr>))"

definition direct_send :: "nat \<Rightarrow> direct_event out_frame \<Rightarrow> world \<Rightarrow> world" where
  "direct_send ch fr w =
     w\<lparr>direct_consumers := (\<lambda>c. if c = ch
          then map_option (\<lambda>self. self\<lparr>dc_outbox := dc_outbox self @ [fr]\<rparr>) (direct_consumers w c)
          else direct_consumers w c)\<rparr>"

definition direct_accept :: "nat \<Rightarrow> world \<Rightarrow> world" where
  "direct_accept ch w =
     w\<lparr>direct_consumers := (\<lambda>c. if c = ch
          then map_option (\<lambda>self. self\<lparr>dc_accepted := True\<rparr>) (direct_consumers w c)
          else direct_consumers w c)\<rparr>"

definition direct_close :: "nat \<Rightarrow> world \<Rightarrow> world" where
  "direct_close ch w =
     w\<lparr>direct_consumers := (\<lambda>c. if c = ch
          then map_option (\<lambda>self. self\<lparr>dc_closed := True\<rparr>) (direct_consumers w c)
          else direct_consumers w c)\<rparr>"

subsection \<open>Database operations\<close>

definition is_conversation_participant :: "direct_consumer \<Rightarrow> world \<Rightarrow> bool" where
  "is_conversation_participant self w =
     (case conversations w (dc_conversation_id self) of
        None \<Rightarrow> False
      | Some conv \<Rightarrow>
          (case dc_user self of
             AnonymousUser \<Rightarrow> False
           | AuthUser u \<Rightarrow> uid u \<in> set (participants conv)))"

text \<open>
  \<^verbatim>\<open>DirectMessage.objects.create\<close>; the recipient is a column that is not null, so
  creating a row without one raises \<^verbatim>\<open>IntegrityError\<close>.
\<close>

definition DirectMessage_objects_create ::
  "timestamp \<Rightarrow> nat \<Rightarrow> nat option \<Rightarrow> string \<Rightarrow> world
     \<Rightarrow> (error + int \<times> direct_message) \<times> world" where
  "DirectMessage_objects_create now s r c w =
     (case r of
        None \<Rightarrow> (Inl IntegrityError, w)
      | Some rcp \<Rightarrow>
          (let i = direct_message_seq w + 1;
               m = \<lparr>dm_sender = s, dm_recipient = rcp, dm_content = c, dm_is_read = False,
                    dm_read_at = None, dm_is_edited = False, dm_edited_at = None,
                    dm_is_deleted = False, dm_deleted_at = None,
                    dm_created_at = now, dm_updated_at = now\<rparr>
           in if direct_messages w i \<noteq> None then (Inl IntegrityError, w)
              else (Inr (i, m), w\<lparr>direct_messages := (direct_messages w)(i \<mapsto> m),
                                   direct_message_seq := i\<rparr>)))"

definition save_direct_message ::
  "timestamp \<Rightarrow> direct_consumer \<Rightarrow> string \<Rightarrow> world
     \<Rightarrow> (error + (int \<times> direct_message) option) \<times> world" where
  "save_direct_message now self c w =
     (case conversations w (dc_conversation_id self) of
        None \<Rightarrow> (Inr None, w)
      | Some conv \<Rightarrow>
          (case dc_user self of
             AnonymousUser \<Rightarrow> (Inl ValueError, w)
           | AuthUser u \<Rightarrow>
               (let recipient = get_other_participant conv (uid u)
                in case DirectMessage_objects_create now (uid u) recipient c w of
                     (Inl e, w') \<Rightarrow> (Inl e, w')
                   | (Inr obj, w') \<Rightarrow>
                       (Inr (Some obj),
                        w'\<lparr>conversations := (conversations w')(dc_conversation_id self \<mapsto>
                              conv\<lparr>last_message := Some (fst obj),
                                   conv_updated_at := now\<rparr>)\<rparr>))))"

text \<open>
  \<^verbatim>\<open>serialize_direct_message\<close>: \<^verbatim>\<open>DirectMessageSerializer\<close> has model fields only and
  reads the object it is given.
\<close>

definition serialize_direct_message :: "int \<times> direct_message \<Rightarrow> int \<times> direct_message" where
  "serialize_direct_message obj = obj"

text \<open>
  The name \<^verbatim>\<open>timezone\<close> of \<^verbatim>\<open>chat/consumers.py\<close> is bound by
  \<^verbatim>\<open>from datetime import timezone\<close>: it is the class \<^verbatim>\<open>datetime.timezone\<close>, which has no
  attribute \<^verbatim>\<open>now\<close>, so evaluating \<^verbatim>\<open>timezone.now()\<close> in that module raises
  \<^verbatim>\<open>AttributeError\<close>. (\<^verbatim>\<open>chat/models.py\<close> imports \<^verbatim>\<open>timezone\<close> from \<^verbatim>\<open>django.utils\<close>,
  whose \<^verbatim>\<open>now()\<close> is the clock.)
\<close>

definition consumers_timezone_now :: "timestamp \<Rightarrow> error + timestamp" where
  "consumers_timezone_now now = Inl AttributeError"

text \<open>
  \<^verbatim>\<open>mark_messages_as_read\<close>: the query set is built first (an anonymous user is
  refused there), then the arguments of \<^verbatim>\<open>update\<close> are evaluated, then the rows are
  written.
\<close>

definition mark_messages_as_read ::
  "timestamp \<Rightarrow> direct_consumer \<Rightarrow> int list \<Rightarrow> world \<Rightarrow> error option \<times> world" where
  "mark_messages_as_read now self message_ids w =
     (case dc_user self of
        AnonymousUser \<Rightarrow> (Some TypeError, w)
      | AuthUser u \<Rightarrow>
          (case consumers_timezone_now now of
             Inl e \<Rightarrow> (Some e, w)
           | Inr t \<Rightarrow>
               (None, w\<lparr>direct_messages := (\<lambda>i.
                  case direct_messages w i of
                    None \<Rightarrow> None
                  | Some m \<Rightarrow>
                      if i \<in> set message_ids \<and> dm_recipient m = uid u \<and> \<not> dm_is_read m
                      then Some (m\<lparr>dm_is_read := True, dm_read_at := Some t\<rparr>)
                      else Some m)\<rparr>)))"

subsection \<open>Handlers of inbound frames\<close>

definition handle_direct_message ::
  "timestamp \<Rightarrow> direct_consumer \<Rightarrow> frame \<Rightarrow> world \<Rightarrow> error option \<times> world" where
  "handle_direct_message now self data w =
     (let c = strip (get_or (f_content data) [])
      in if c = [] then (None, w)
         else (case save_direct_message now self c w of
                 (Inl e, w') \<Rightarrow> (Some e, w')
               | (Inr None, w') \<Rightarrow> (None, w')
               | (Inr (Some obj), w') \<Rightarrow>
                   direct_group_send (dc_conversation_id self)
                     (DirectMessage (serialize_direct_message obj)) w'))"

definition DirectMessageConsumer_handle_typing ::
  "direct_consumer \<Rightarrow> frame \<Rightarrow> world \<Rightarrow> error option \<times> world" where
  "DirectMessageConsumer_handle_typing self data w =
     (let is_typing = get_or (f_is_typing data) False
      in direct_group_send (dc_conversation_id self)
           (DirectTypingIndicator (username_of (dc_user self)) is_typing) w)"

definition handle_message_read ::
  "timestamp \<Rightarrow> direct_consumer \<Rightarrow> frame \<Rightarrow> world \<Rightarrow> error option \<times> world" where
  "handle_message_read now self data w =
     (let message_ids = get_or (f_message_ids data) []
      in case mark_messages_as_read now self message_ids w of
           (Some e, w') \<Rightarrow> (Some e, w')
         | (None, w') \<Rightarrow>
             direct_group_send (dc_conversation_id self)
               (MessagesRead message_ids (username_of (dc_user self))) w')"

subsection \<open>Lifecycle and dispatch\<close>

definition new_direct_consumer :: "identity \<Rightarrow> nat \<Rightarrow> direct_consumer" where
  "new_direct_consumer usr cid =
     \<lparr>dc_user = usr, dc_conversation_id = cid, dc_accepted = False, dc_closed = False,
      dc_outbox = []\<rparr>"

definition DirectMessageConsumer_connect ::
  "nat \<Rightarrow> nat \<Rightarrow> identity \<Rightarrow> world \<Rightarrow> error option \<times> world" where
  "DirectMessageConsumer_connect ch cid usr w =
     (let self = new_direct_consumer usr cid;
          w0 = w\<lparr>direct_consumers := (direct_consumers w)(ch \<mapsto> self)\<rparr>
      in if \<not> is_conversation_participant self w0 then (None, direct_close ch w0)
         else (case direct_group_add cid ch w0 of
                 (Some e, w1) \<Rightarrow> (Some e, w1)
               | (None, w1) \<Rightarrow> (None, direct_accept ch w1)))"

definition DirectMessageConsumer_disconnect :: "nat \<Rightarrow> world \<Rightarrow> error option \<times> world" where
  "DirectMessageConsumer_disconnect ch w =
     (case direct_consumers w ch of
        None \<Rightarrow> (None, w)
      | Some self \<Rightarrow> direct_group_discard (dc_conversation_id self) ch w)"

definition DirectMessageConsumer_receive ::
  "timestamp \<Rightarrow> nat \<Rightarrow> inbound \<Rightarrow> world \<Rightarrow> error option \<times> world" where
  "DirectMessageConsumer_receive now ch text_data w =
     (case direct_consumers w ch of
        None \<Rightarrow> (None, w)
      | Some self \<Rightarrow>
          (case text_data of
             Malformed \<Rightarrow> (None, direct_send ch (ErrorReply ''Invalid JSON'') w)
           | NonObject \<Rightarrow> (Some AttributeError, w)
           | Binary \<Rightarrow> (Some TypeError, w)
           | Object data \<Rightarrow>
               (let message_type = f_type data
                in if message_type = Some ''direct_message''
                     then handle_direct_message now self data w
                   else if message_type = Some ''typing''
                     then DirectMessageConsumer_handle_typing self data w
                   else if message_type = Some ''message_read''
                     then handle_message_read now self data w
                   else (None, w))))"

section \<open>An example state\<close>

text \<open>
  Room 7 has the members alice (user 1) and bob (user 2), each with a live session in
  the group of the room (channels 100 and 101); message 1 of the room was sent by
  alice. Conversation 3 is between the two, with the sessions on channels 200 and 201;
  direct message 1 was sent by bob to alice and is unread.
\<close>

definition alice :: user where
  "alice = \<lparr>uid = 1, username = ''alice'', is_online = True, status = ''online'',
            last_seen = 5\<rparr>"

definition bob :: user where
  "bob = \<lparr>uid = 2, username = ''bob'', is_online = True, status = ''online'',
          last_seen = 6\<rparr>"

definition carol :: user where
  "carol = \<lparr>uid = 3, username = ''carol'', is_online = False, status = ''offline'',
            last_seen = 0\<rparr>"

definition msg1 :: message where
  "msg1 = \<lparr>room = 7, sender = 1, content = ''hi'', reply_to = None, is_edited = False,
           edited_at = None, is_deleted = False, deleted_at = None,
           created_at = 10, updated_at = 10\<rparr>"

definition dm1 :: direct_message where
  "dm1 = \<lparr>dm_sender = 2, dm_recipient = 1, dm_content = ''yo'', dm_is_read = False,
          dm_read_at = None, dm_is_edited = False, dm_edited_at = None,
          dm_is_deleted = False, dm_deleted_at = None,
          dm_created_at = 11, dm_updated_at = 11\<rparr>"

definition room_session :: "user \<Rightarrow> chat_consumer" where
  "room_session u = \<lparr>cc_user = AuthUser u, cc_room_id = 7, cc_accepted = True,
                     cc_closed = False, cc_outbox = []\<rparr>"

definition direct_session :: "user \<Rightarrow> direct_consumer" where
  "direct_session u = \<lparr>dc_user = AuthUser u, dc_conversation_id = 3, dc_accepted = True,
                       dc_closed = False, dc_outbox = []\<rparr>"

definition world0 :: world where
  "world0 =
     \<lparr>users = (\<lambda>n. if n = 1 then alice else if n = 2 then bob else carol\<lparr>uid := n\<rparr>),
      rooms = [7 \<mapsto> {1, 2}],
      conversations = [3 \<mapsto> \<lparr>participants = [1, 2], last_message = Some 1,
                              conv_updated_at = 11\<rparr>],
      messages = [1 \<mapsto> msg1],
      message_seq = 1,
      reactions = [],
      direct_messages = [1 \<mapsto> dm1],
      direct_message_seq = 1,
      layer_ok = True,
      chat_groups = (\<lambda>g. if g = 7 then {100, 101} else {}),
      direct_groups = (\<lambda>g. if g = 3 then {200, 201} else {}),
      chat_sent = [],
      direct_sent = [],
      chat_consumers = [100 \<mapsto> room_session alice, 101 \<mapsto> room_session bob],
      direct_consumers = [200 \<mapsto> direct_session alice, 201 \<mapsto> direct_session bob]\<rparr>"

text \<open>A frame with the tag \<open>t\<close> and no other key.\<close>

definition tagged :: "string \<Rightarrow> frame" where
  "tagged t = \<lparr>f_type = Some t, f_content = None, f_reply_to = None, f_is_typing = None,
               f_message_id = None, f_reaction_type = None, f_action = None,
               f_message_ids = None\<rparr>"

definition edit_frame :: frame where
  "edit_frame = (tagged ''message_edit'')\<lparr>f_message_id := Some 1, f_content := Some '' new ''\<rparr>"

definition delete_frame :: frame where
  "delete_frame = (tagged ''message_delete'')\<lparr>f_message_id := Some 1\<rparr>"

definition like_frame :: frame where
  "like_frame = (tagged ''message_reaction'')\<lparr>f_message_id := Some 1,
                   f_reaction_type := Some ''like''\<rparr>"

definition read_frame :: frame where
  "read_frame = (tagged ''message_read'')\<lparr>f_message_ids := Some [1]\<rparr>"

text \<open>The example state after alice has deleted message 1 at time 20.\<close>

definition world_deleted :: world where
  "world_deleted = snd (handle_message_delete 20 (room_session alice) delete_frame world0)"

text \<open>The example state after alice has reacted to message 1 with \<open>like\<close>.\<close>

definition world_liked :: world where
  "world_liked = snd (handle_message_reaction (room_session alice) like_frame world0)"

text \<open>
  The reply target of every stored message, if set, is a stored message of the same
  room.
\<close>

definition reply_targets_in_room :: "world \<Rightarrow> bool" where
  "reply_targets_in_room w \<longleftrightarrow>
     (\<forall>i m r. messages w i = Some m \<and> reply_to m = Some r
        \<longrightarrow> (\<exists>t. messages w r = Some t \<and> room t = room m))"

definition reply_frame :: frame where
  "reply_frame = (tagged ''chat_message'')\<lparr>f_content := Some ''re: hi '', f_reply_to := Some 1\<rparr>"

definition typing_frame :: frame where
  "typing_frame = (tagged ''typing'')\<lparr>f_is_typing := Some True\<rparr>"

definition direct_frame :: frame where
  "direct_frame = (tagged ''direct_message'')\<lparr>f_content := Some ''hello bob''\<rparr>"

section \<open>Facts about the channel layer\<close>

lemma chat_group_send_ok:
  "layer_ok w \<Longrightarrow> chat_group_send g ev w =
     (None, w\<lparr>chat_sent := chat_sent w @ [(g, ev)],
              chat_consumers := (\<lambda>ch.
                case chat_consumers w ch of
                  None \<Rightarrow> None
                | Some c \<Rightarrow>
                    if ch \<in> chat_groups w g
                    then Some (c\<lparr>cc_outbox := cc_outbox c @ ChatConsumer_dispatch c ev\<rparr>)
                    else Some c)\<rparr>)"
  by (simp add: chat_group_send_def)

lemma chat_group_send_store:
  "chat_group_send g ev w = (err, w') \<Longrightarrow>
     messages w' = messages w \<and> message_seq w' = message_seq w \<and> reactions w' = reactions w
     \<and> users w' = users w \<and> rooms w' = rooms w \<and> chat_groups w' = chat_groups w
     \<and> layer_ok w' = layer_ok w"
  by (auto simp: chat_group_send_def split: if_splits)

lemma chat_group_send_sent:
  "layer_ok w \<Longrightarrow> chat_group_send g ev w = (err, w') \<Longrightarrow>
     err = None \<and> chat_sent w' = chat_sent w @ [(g, ev)]"
  by (auto simp: chat_group_send_def)

section \<open>Soft delete\<close>

text \<open>
  C10. The placeholder of a soft delete is the string \<open>This message was deleted\<close>, the
  same for \<^verbatim>\<open>Message\<close> and \<^verbatim>\<open>DirectMessage\<close>. \<^verbatim>\<open>delete_message\<close> of either model
  returns and stores the object with exactly that content, the deleted flag set and
  the deletion time \<open>now\<close>; the sender, the group key (the room of a message, the
  recipient of a direct message) and the creation time are those of the object it was
  given. A delete through the consumer that returns a message has stored the row it
  found with these changes.
\<close>

theorem delete_message_placeholder:
  "(let (obj, w') = Message_delete_message now (i, m) w
    in obj = (i, m\<lparr>is_deleted := True, deleted_at := Some now,
                   content := ''This message was deleted'', updated_at := now\<rparr>)
       \<and> messages w' i = Some (snd obj)
       \<and> sender (snd obj) = sender m \<and> room (snd obj) = room m
       \<and> created_at (snd obj) = created_at m)
   \<and> (let (dobj, v') = DirectMessage_delete_message now (j, d) v
       in dobj = (j, d\<lparr>dm_is_deleted := True, dm_deleted_at := Some now,
                       dm_content := ''This message was deleted'', dm_updated_at := now\<rparr>)
          \<and> direct_messages v' j = Some (snd dobj)
          \<and> dm_sender (snd dobj) = dm_sender d \<and> dm_recipient (snd dobj) = dm_recipient d
          \<and> dm_created_at (snd dobj) = dm_created_at d)
   \<and> (ChatConsumer_delete_message now self message_id w = (Inr (Some (k, m')), w'')
       \<longrightarrow> (\<exists>m0. messages w k = Some m0
              \<and> m' = m0\<lparr>is_deleted := True, deleted_at := Some now,
                        content := ''This message was deleted'', updated_at := now\<rparr>
              \<and> messages w'' = (messages w)(k \<mapsto> m')))"
proof -
  have model: "Message_delete_message now (i, m) w =
      ((i, m\<lparr>is_deleted := True, deleted_at := Some now,
              content := ''This message was deleted'', updated_at := now\<rparr>),
       w\<lparr>messages := (messages w)(i \<mapsto> m\<lparr>is_deleted := True, deleted_at := Some now,
              content := ''This message was deleted'', updated_at := now\<rparr>)\<rparr>)" for i m
    by (simp add: Message_delete_message_def Message_save_def Let_def)
  have direct: "DirectMessage_delete_message now (j, d) v =
      ((j, d\<lparr>dm_is_deleted := True, dm_deleted_at := Some now,
              dm_content := ''This message was deleted'', dm_updated_at := now\<rparr>),
       v\<lparr>direct_messages := (direct_messages v)(j \<mapsto> d\<lparr>dm_is_deleted := True,
              dm_deleted_at := Some now, dm_content := ''This message was deleted'',
              dm_updated_at := now\<rparr>)\<rparr>)"
    by (simp add: DirectMessage_delete_message_def DirectMessage_save_def Let_def)
  have consumer: "ChatConsumer_delete_message now self message_id w = (Inr (Some (k, m')), w'')
       \<longrightarrow> (\<exists>m0. messages w k = Some m0
              \<and> m' = m0\<lparr>is_deleted := True, deleted_at := Some now,
                        content := ''This message was deleted'', updated_at := now\<rparr>
              \<and> messages w'' = (messages w)(k \<mapsto> m'))"
    by (auto simp: ChatConsumer_delete_message_def Message_get_own_def
          Message_get_in_room_def model
          split: identity.splits option.splits if_splits prod.splits)
  show ?thesis
    using consumer by (simp add: model direct)
qed

theorem delete_message_placeholder_witness:
  "ChatConsumer_delete_message 20 (room_session alice) (Some 1) world0
     = (Inr (Some (1, msg1\<lparr>is_deleted := True, deleted_at := Some 20,
                           content := ''This message was deleted'', updated_at := 20\<rparr>)),
        world0\<lparr>messages := (messages world0)(1 \<mapsto> msg1\<lparr>is_deleted := True,
                  deleted_at := Some 20, content := ''This message was deleted'',
                  updated_at := 20\<rparr>)\<rparr>)
   \<and> (\<exists>m0. messages world0 1 = Some m0
        \<and> msg1\<lparr>is_deleted := True, deleted_at := Some 20,
                content := ''This message was deleted'', updated_at := 20\<rparr>
            = m0\<lparr>is_deleted := True, deleted_at := Some 20,
                  content := ''This message was deleted'', updated_at := 20\<rparr>)"
proof -
  have run: "ChatConsumer_delete_message 20 (room_session alice) (Some 1) world0
     = (Inr (Some (1, msg1\<lparr>is_deleted := True, deleted_at := Some 20,
                           content := ''This message was deleted'', updated_at := 20\<rparr>)),
        world0\<lparr>messages := (messages world0)(1 \<mapsto> msg1\<lparr>is_deleted := True,
                  deleted_at := Some 20, content := ''This message was deleted'',
                  updated_at := 20\<rparr>)\<rparr>)"
    by (simp add: ChatConsumer_delete_message_def Message_get_own_def
          Message_get_in_room_def Message_delete_message_def Message_save_def Let_def
          room_session_def alice_def world0_def msg1_def)
  from delete_message_placeholder
    [of 20 1 msg1 world0 1 dm1 world0 "room_session alice" "Some 1" 1
        "msg1\<lparr>is_deleted := True, deleted_at := Some 20,
               content := ''This message was deleted'', updated_at := 20\<rparr>"
        "world0\<lparr>messages := (messages world0)(1 \<mapsto> msg1\<lparr>is_deleted := True,
                  deleted_at := Some 20, content := ''This message was deleted'',
                  updated_at := 20\<rparr>)\<rparr>"] run
  show ?thesis by blast
qed

section \<open>Edit\<close>

lemma Message_get_own_Some:
  "Message_get_own message_id r s w = Some (i, m) \<longleftrightarrow>
     message_id = Some i \<and> messages w i = Some m \<and> room m = r \<and> sender m = s"
  by (auto simp: Message_get_own_def Message_get_in_room_def split: option.splits)

lemma Message_get_own_None:
  "Message_get_own message_id r s w = None \<longleftrightarrow>
     (\<forall>i. message_id = Some i \<longrightarrow>
        messages w i = None \<or> (\<exists>m. messages w i = Some m \<and> (room m \<noteq> r \<or> sender m \<noteq> s)))"
  by (auto simp: Message_get_own_def Message_get_in_room_def split: option.splits)

lemma Message_edit_message_eq:
  "Message_edit_message now c (i, m) w =
     ((i, m\<lparr>content := c, is_edited := True, edited_at := Some now, updated_at := now\<rparr>),
      w\<lparr>messages := (messages w)(i \<mapsto>
           m\<lparr>content := c, is_edited := True, edited_at := Some now, updated_at := now\<rparr>)\<rparr>)"
  by (simp add: Message_edit_message_def Message_save_def Let_def)

lemma serialize_message_raises: "serialize_message obj = Inl AttributeError"
  by (simp add: serialize_message_def get_reaction_counts_def)

lemma handle_message_edit_refused:
  assumes "cc_user self = AuthUser u"
    and "\<forall>i. f_message_id data = Some i \<longrightarrow>
           messages w i = None
           \<or> (\<exists>m. messages w i = Some m \<and> (room m \<noteq> cc_room_id self \<or> sender m \<noteq> uid u))"
  shows "handle_message_edit now self data w = (None, w)"
proof -
  from assms(2) have "Message_get_own (f_message_id data) (cc_room_id self) (uid u) w = None"
    by (simp only: Message_get_own_None)
  with assms(1) show ?thesis
    by (simp add: handle_message_edit_def ChatConsumer_edit_message_def Let_def)
qed

lemma handle_message_edit_applied:
  assumes "cc_user self = AuthUser u"
    and "strip (get_or (f_content data) []) = c" and "c \<noteq> []"
    and "f_message_id data = Some i" and "messages w i = Some m"
    and "room m = cc_room_id self" and "sender m = uid u"
  shows "handle_message_edit now self data w =
     (Some AttributeError,
      w\<lparr>messages := (messages w)(i \<mapsto>
           m\<lparr>content := c, is_edited := True, edited_at := Some now, updated_at := now\<rparr>)\<rparr>)"
proof -
  have "Message_get_own (f_message_id data) (cc_room_id self) (uid u) w = Some (i, m)"
    using assms(4-7) by (simp add: Message_get_own_Some)
  with assms(1-3) show ?thesis
    by (simp add: handle_message_edit_def ChatConsumer_edit_message_def
          Message_edit_message_eq serialize_message_raises)
qed

text \<open>
  C5. The specification says: an edit with non-blank content changes nothing and sends
  nothing unless the requester sent the message; when the requester is the sender the
  content is replaced, the edited flag and time are set, and exactly one event is sent
  to the group. In the example state bob's edit of alice's message 1 leaves the state
  as it was. Alice's own edit stores the new content with the edited flag and time,
  but serializing the edited message raises \<^verbatim>\<open>AttributeError\<close> before \<^verbatim>\<open>group_send\<close> is
  reached: nothing is sent to the group, no session of the room gets a frame, and the
  exception leaves \<^verbatim>\<open>receive\<close>.
\<close>

theorem edit_by_sender_sends_no_event:
  "handle_message_edit 30 (room_session bob) edit_frame world0 = (None, world0)
   \<and> handle_message_edit 30 (room_session alice) edit_frame world0
       = (Some AttributeError,
          world0\<lparr>messages := (messages world0)(1 \<mapsto>
             msg1\<lparr>content := ''new'', is_edited := True, edited_at := Some 30,
                  updated_at := 30\<rparr>)\<rparr>)
   \<and> ChatConsumer_receive 30 100 (Object edit_frame) world0
       = handle_message_edit 30 (room_session alice) edit_frame world0
   \<and> chat_sent (snd (ChatConsumer_receive 30 100 (Object edit_frame) world0)) = []
   \<and> map_option cc_outbox
        (chat_consumers (snd (ChatConsumer_receive 30 100 (Object edit_frame) world0)) 100)
       = Some []
   \<and> map_option cc_outbox
        (chat_consumers (snd (ChatConsumer_receive 30 100 (Object edit_frame) world0)) 101)
       = Some []"
proof -
  have c: "strip (get_or (f_content edit_frame) []) = ''new''"
    by (simp add: edit_frame_def tagged_def get_or_def strip_def isspace_def)
  have b: "handle_message_edit 30 (room_session bob) edit_frame world0 = (None, world0)"
    by (rule handle_message_edit_refused [where u = bob])
       (simp_all add: edit_frame_def tagged_def world0_def msg1_def bob_def room_session_def)
  have a: "handle_message_edit 30 (room_session alice) edit_frame world0
       = (Some AttributeError,
          world0\<lparr>messages := (messages world0)(1 \<mapsto>
             msg1\<lparr>content := ''new'', is_edited := True, edited_at := Some 30,
                  updated_at := 30\<rparr>)\<rparr>)"
    by (rule handle_message_edit_applied [where u = alice, OF _ c])
       (simp_all add: edit_frame_def tagged_def world0_def msg1_def alice_def room_session_def)
  have r: "ChatConsumer_receive 30 100 (Object edit_frame) world0
       = handle_message_edit 30 (room_session alice) edit_frame world0"
    by (simp add: ChatConsumer_receive_def Let_def world0_def edit_frame_def tagged_def)
  have w: "chat_sent world0 = []"
      "chat_consumers world0 100 = Some (room_session alice)"
      "chat_consumers world0 101 = Some (room_session bob)"
      "cc_outbox (room_session alice) = []" "cc_outbox (room_session bob) = []"
    by (simp_all add: world0_def room_session_def)
  from a b r w show ?thesis by simp
qed

section \<open>Operations on a deleted message\<close>

lemma world_deleted_fields:
  "messages world_deleted = [1 \<mapsto> msg1\<lparr>is_deleted := True, deleted_at := Some 20,
       content := ''This message was deleted'', updated_at := 20\<rparr>]"
  "chat_sent world_deleted = [(7, MessageDeleted (Some 1))]"
  "layer_ok world_deleted"
  by (simp_all add: world_deleted_def handle_message_delete_def ChatConsumer_delete_message_def
        Message_get_own_def Message_get_in_room_def Message_delete_message_def Message_save_def
        chat_group_send_def Let_def delete_frame_def tagged_def room_session_def alice_def
        world0_def msg1_def)

text \<open>
  C1. The specification says: once a message is deleted, a later edit or delete of it by anyone
  changes no field and sends no event. The consumer looks a message up by id, room and
  sender and does not read the deleted flag. In the example state, after alice has
  deleted her message 1 (it is deleted and holds the placeholder), her edit with the
  content \<open>new\<close> replaces the placeholder by \<open>new\<close> and sets the edited flag and time
  (the edit ends with the \<^verbatim>\<open>AttributeError\<close> of the serializer, after the row is
  stored, so no event follows it); her second delete at time 40 returns without error,
  moves the deletion time from 20 to 40 and sends a second \<open>message_deleted\<close> event to
  the group.
\<close>

theorem edit_after_delete_is_applied:
  "map_option is_deleted (messages world_deleted 1) = Some True
   \<and> map_option content (messages world_deleted 1) = Some ''This message was deleted''
   \<and> map_option deleted_at (messages world_deleted 1) = Some (Some 20)
   \<and> handle_message_edit 30 (room_session alice) edit_frame world_deleted
       = (Some AttributeError,
          world_deleted\<lparr>messages := (messages world_deleted)(1 \<mapsto>
             msg1\<lparr>is_deleted := True, deleted_at := Some 20, content := ''new'',
                  is_edited := True, edited_at := Some 30, updated_at := 30\<rparr>)\<rparr>)
   \<and> map_option content
        (messages (snd (handle_message_edit 30 (room_session alice) edit_frame world_deleted)) 1)
       = Some ''new''
   \<and> map_option is_edited
        (messages (snd (handle_message_edit 30 (room_session alice) edit_frame world_deleted)) 1)
       = Some True
   \<and> fst (handle_message_delete 40 (room_session alice) delete_frame world_deleted) = None
   \<and> map_option deleted_at
        (messages (snd (handle_message_delete 40 (room_session alice) delete_frame world_deleted)) 1)
       = Some (Some 40)
   \<and> chat_sent (snd (handle_message_delete 40 (room_session alice) delete_frame world_deleted))
       = chat_sent world_deleted @ [(7, MessageDeleted (Some 1))]"
proof -
  let ?d = "msg1\<lparr>is_deleted := True, deleted_at := Some 20,
       content := ''This message was deleted'', updated_at := 20\<rparr>"
  have c: "strip (get_or (f_content edit_frame) []) = ''new''"
    by (simp add: edit_frame_def tagged_def get_or_def strip_def isspace_def)
  have e: "handle_message_edit 30 (room_session alice) edit_frame world_deleted
       = (Some AttributeError,
          world_deleted\<lparr>messages := (messages world_deleted)(1 \<mapsto>
             ?d\<lparr>content := ''new'', is_edited := True, edited_at := Some 30,
                updated_at := 30\<rparr>)\<rparr>)"
    by (rule handle_message_edit_applied [where u = alice, OF _ c])
       (simp_all add: edit_frame_def tagged_def world_deleted_fields msg1_def alice_def
          room_session_def)
  have d: "fst (handle_message_delete 40 (room_session alice) delete_frame world_deleted) = None
   \<and> map_option deleted_at
        (messages (snd (handle_message_delete 40 (room_session alice) delete_frame world_deleted)) 1)
       = Some (Some 40)
   \<and> chat_sent (snd (handle_message_delete 40 (room_session alice) delete_frame world_deleted))
       = chat_sent world_deleted @ [(7, MessageDeleted (Some 1))]"
    by (simp add: world_deleted_fields handle_message_delete_def ChatConsumer_delete_message_def
          Message_get_own_def Message_get_in_room_def Message_delete_message_def
          Message_save_def chat_group_send_def Let_def delete_frame_def tagged_def
          room_session_def alice_def msg1_def)
  from e d show ?thesis
    by (simp add: world_deleted_fields msg1_def)
qed

section \<open>Reactions\<close>

lemma world_liked_fields:
  "messages world_liked = messages world0"
  "reactions world_liked = [(1, 1, ''like'')]"
  "chat_sent world_liked = [(7, MessageReaction (Some 1) (Some ''like'') ''add'' ''alice'')]"
  "layer_ok world_liked"
  by (simp_all add: world_liked_def handle_message_reaction_def add_message_reaction_def
        MessageReaction_get_or_create_def Message_get_in_room_def
        chat_group_send_def Let_def like_frame_def tagged_def get_or_def username_of_def
        room_session_def alice_def world0_def msg1_def)

text \<open>
  C2. The specification says: adding the same reaction twice stores one row, and the second add,
  like an add on a missing message, sends no event. In the example state, after alice
  has reacted to message 1 with \<open>like\<close>, the same add finds the row
  (\<^verbatim>\<open>add_message_reaction\<close> returns \<^verbatim>\<open>None\<close>) and the table still holds the one row, but
  \<^verbatim>\<open>handle_message_reaction\<close> does not read that result and sends a second
  \<open>message_reaction\<close> event to the group; an add on message 99, which does not exist,
  sends the event as well.
\<close>

theorem duplicate_reaction_is_broadcast:
  "reactions world_liked = [(1, 1, ''like'')]
   \<and> fst (add_message_reaction (room_session alice) (Some 1) (Some ''like'') world_liked)
       = Inr None
   \<and> fst (handle_message_reaction (room_session alice) like_frame world_liked) = None
   \<and> reactions (snd (handle_message_reaction (room_session alice) like_frame world_liked))
       = [(1, 1, ''like'')]
   \<and> chat_sent (snd (handle_message_reaction (room_session alice) like_frame world_liked))
       = chat_sent world_liked
          @ [(7, MessageReaction (Some 1) (Some ''like'') ''add'' ''alice'')]
   \<and> chat_sent (snd (handle_message_reaction (room_session alice)
          (like_frame\<lparr>f_message_id := Some 99\<rparr>) world0))
       = [(7, MessageReaction (Some 99) (Some ''like'') ''add'' ''alice'')]"
  by (simp add: world_liked_fields handle_message_reaction_def add_message_reaction_def
        MessageReaction_get_or_create_def Message_get_in_room_def
        chat_group_send_def Let_def like_frame_def tagged_def get_or_def username_of_def
        room_session_def alice_def world0_def msg1_def)

section \<open>Read receipts\<close>

text \<open>
  C3. The specification says: marking a set of direct messages as read sets the read flag and time
  on the unread messages of the set that were sent to the requester. In the example
  state direct message 1 was sent to alice and is unread; her \<open>message_read\<close> frame for
  the id 1 raises \<^verbatim>\<open>AttributeError\<close> when the arguments of \<^verbatim>\<open>update\<close> are evaluated, and
  leaves the state as it was: the message stays unread and no receipt is sent.
\<close>

theorem mark_read_raises:
  "handle_message_read 20 (direct_session alice) read_frame world0 = (Some AttributeError, world0)
   \<and> map_option dm_recipient (direct_messages world0 1) = Some (uid alice)
   \<and> map_option dm_is_read (direct_messages world0 1) = Some False"
  by (simp add: handle_message_read_def mark_messages_as_read_def consumers_timezone_now_def
        read_frame_def tagged_def get_or_def direct_session_def alice_def world0_def dm1_def)

section \<open>Joining a group\<close>

lemma direct_group_send_store:
  "direct_group_send g ev w = (err, w') \<Longrightarrow>
     direct_messages w' = direct_messages w \<and> users w' = users w
     \<and> direct_groups w' = direct_groups w \<and> chat_groups w' = chat_groups w
     \<and> layer_ok w' = layer_ok w"
  by (auto simp: direct_group_send_def split: if_splits)

lemma chat_group_send_snd:
  "chat_groups (snd (chat_group_send g ev w)) = chat_groups w"
  "direct_groups (snd (chat_group_send g ev w)) = direct_groups w"
  "users (snd (chat_group_send g ev w)) = users w"
  "messages (snd (chat_group_send g ev w)) = messages w"
  "layer_ok (snd (chat_group_send g ev w)) = layer_ok w"
  by (simp_all add: chat_group_send_def)

lemma direct_group_send_snd:
  "direct_groups (snd (direct_group_send g ev w)) = direct_groups w"
  "chat_groups (snd (direct_group_send g ev w)) = chat_groups w"
  "users (snd (direct_group_send g ev w)) = users w"
  "direct_messages (snd (direct_group_send g ev w)) = direct_messages w"
  "layer_ok (snd (direct_group_send g ev w)) = layer_ok w"
  by (simp_all add: direct_group_send_def)

lemma save_message_layer:
  "save_message now self c r w = (res, w') \<Longrightarrow>
     chat_groups w' = chat_groups w \<and> layer_ok w' = layer_ok w \<and> chat_sent w' = chat_sent w
     \<and> chat_consumers w' = chat_consumers w \<and> users w' = users w"
  by (auto simp: save_message_def Message_objects_create_def Let_def
        split: option.splits identity.splits if_splits)

lemma edit_message_layer:
  "ChatConsumer_edit_message now self i c w = (res, w') \<Longrightarrow>
     chat_groups w' = chat_groups w \<and> layer_ok w' = layer_ok w \<and> chat_sent w' = chat_sent w
     \<and> chat_consumers w' = chat_consumers w \<and> users w' = users w"
  by (auto simp: ChatConsumer_edit_message_def Message_edit_message_def Message_save_def Let_def
        split: option.splits identity.splits if_splits)

lemma delete_message_layer:
  "ChatConsumer_delete_message now self i w = (res, w') \<Longrightarrow>
     chat_groups w' = chat_groups w \<and> layer_ok w' = layer_ok w \<and> chat_sent w' = chat_sent w
     \<and> chat_consumers w' = chat_consumers w \<and> users w' = users w"
  by (auto simp: ChatConsumer_delete_message_def Message_delete_message_def Message_save_def
        Let_def split: option.splits identity.splits if_splits)

lemma add_message_reaction_layer:
  "add_message_reaction self i k w = (res, w') \<Longrightarrow>
     chat_groups w' = chat_groups w \<and> layer_ok w' = layer_ok w \<and> chat_sent w' = chat_sent w
     \<and> chat_consumers w' = chat_consumers w \<and> users w' = users w
     \<and> messages w' = messages w"
  by (auto simp: add_message_reaction_def MessageReaction_get_or_create_def
        split: option.splits identity.splits if_splits)

lemma remove_message_reaction_layer:
  "remove_message_reaction self i k w = (res, w') \<Longrightarrow>
     chat_groups w' = chat_groups w \<and> layer_ok w' = layer_ok w \<and> chat_sent w' = chat_sent w
     \<and> chat_consumers w' = chat_consumers w \<and> users w' = users w
     \<and> messages w' = messages w"
  by (auto simp: remove_message_reaction_def split: option.splits identity.splits)

lemma save_direct_message_layer:
  "save_direct_message now self c w = (res, w') \<Longrightarrow>
     direct_groups w' = direct_groups w \<and> layer_ok w' = layer_ok w
     \<and> direct_sent w' = direct_sent w \<and> direct_consumers w' = direct_consumers w
     \<and> users w' = users w"
  by (auto simp: save_direct_message_def DirectMessage_objects_create_def Let_def
        split: option.splits identity.splits if_splits)

lemma mark_messages_as_read_layer:
  "mark_messages_as_read now self ids w = (res, w') \<Longrightarrow>
     direct_groups w' = direct_groups w \<and> layer_ok w' = layer_ok w
     \<and> direct_sent w' = direct_sent w \<and> direct_consumers w' = direct_consumers w
     \<and> users w' = users w"
  by (auto simp: mark_messages_as_read_def consumers_timezone_now_def
        split: identity.splits)

lemma chat_handlers_groups:
  "chat_groups (snd (handle_chat_message now self data w)) = chat_groups w"
  "chat_groups (snd (ChatConsumer_handle_typing self data w)) = chat_groups w"
  "chat_groups (snd (handle_message_reaction self data w)) = chat_groups w"
  "chat_groups (snd (handle_message_edit now self data w)) = chat_groups w"
  "chat_groups (snd (handle_message_delete now self data w)) = chat_groups w"
proof -
  show "chat_groups (snd (handle_chat_message now self data w)) = chat_groups w"
    by (auto simp: handle_chat_message_def Let_def chat_group_send_snd
          split: prod.splits sum.splits option.splits
          dest!: save_message_layer)
  show "chat_groups (snd (ChatConsumer_handle_typing self data w)) = chat_groups w"
    by (simp add: ChatConsumer_handle_typing_def Let_def chat_group_send_snd)
  show "chat_groups (snd (handle_message_reaction self data w)) = chat_groups w"
    by (auto simp: handle_message_reaction_def Let_def chat_group_send_snd
          split: prod.splits sum.splits option.splits if_splits
          dest!: add_message_reaction_layer remove_message_reaction_layer)
  show "chat_groups (snd (handle_message_edit now self data w)) = chat_groups w"
    by (auto simp: handle_message_edit_def Let_def chat_group_send_snd
          split: prod.splits sum.splits option.splits
          dest!: edit_message_layer)
  show "chat_groups (snd (handle_message_delete now self data w)) = chat_groups w"
    by (auto simp: handle_message_delete_def Let_def chat_group_send_snd
          split: prod.splits sum.splits option.splits
          dest!: delete_message_layer)
qed

lemma direct_handlers_groups:
  "direct_groups (snd (handle_direct_message now self data w)) = direct_groups w"
  "direct_groups (snd (DirectMessageConsumer_handle_typing self data w)) = direct_groups w"
  "direct_groups (snd (handle_message_read now self data w)) = direct_groups w"
proof -
  show "direct_groups (snd (handle_direct_message now self data w)) = direct_groups w"
    by (auto simp: handle_direct_message_def Let_def direct_group_send_snd
          split: prod.splits sum.splits option.splits
          dest!: save_direct_message_layer)
  show "direct_groups (snd (DirectMessageConsumer_handle_typing self data w)) = direct_groups w"
    by (simp add: DirectMessageConsumer_handle_typing_def Let_def direct_group_send_snd)
  show "direct_groups (snd (handle_message_read now self data w)) = direct_groups w"
    by (auto simp: handle_message_read_def Let_def direct_group_send_snd
          split: prod.splits option.splits
          dest!: mark_messages_as_read_layer)
qed

lemma ChatConsumer_receive_groups:
  "chat_groups (snd (ChatConsumer_receive now ch fr w)) = chat_groups w"
  by (simp add: ChatConsumer_receive_def chat_send_def chat_handlers_groups Let_def
        split: option.splits inbound.splits)

lemma DirectMessageConsumer_receive_groups:
  "direct_groups (snd (DirectMessageConsumer_receive now ch fr w)) = direct_groups w"
  by (simp add: DirectMessageConsumer_receive_def direct_send_def direct_handlers_groups Let_def
        split: option.splits inbound.splits)

lemma update_user_status_groups:
  "chat_groups (snd (update_user_status now ch b w)) = chat_groups w"
  by (simp add: update_user_status_def set_online_status_def update_last_seen_def Let_def
        split: option.splits identity.splits prod.splits)

lemma ChatConsumer_disconnect_groups:
  "chat_groups (snd (ChatConsumer_disconnect now ch w)) g \<subseteq> chat_groups w g"
  by (auto simp: ChatConsumer_disconnect_def chat_group_discard_def update_user_status_groups
        split: option.splits prod.splits if_splits)

lemma DirectMessageConsumer_disconnect_groups:
  "direct_groups (snd (DirectMessageConsumer_disconnect ch w)) g \<subseteq> direct_groups w g"
  by (auto simp: DirectMessageConsumer_disconnect_def direct_group_discard_def
        split: option.splits if_splits)

text \<open>
  C4. A session on channel \<open>ch\<close> that tries to join room \<open>rid\<close> (conversation \<open>cid\<close>)
  while the membership check is false: \<^verbatim>\<open>connect\<close> returns without error, and all it has
  done is to close the connection of the new consumer. The consumer is closed and not
  accepted, no group of the channel layer has changed (so the channel is in no group
  it was not in), nothing was sent to a group or a socket, and the store is as it
  was. The check is false in particular when the room (conversation) does not exist
  and when the user is anonymous. No later \<^verbatim>\<open>receive\<close> changes a group, and a
  \<^verbatim>\<open>disconnect\<close> only removes from one: \<^verbatim>\<open>connect\<close> is the only method that adds a
  channel to a group.
\<close>

theorem join_refused_for_non_member:
  "(\<not> is_room_member (new_chat_consumer usr rid) w \<longrightarrow>
      ChatConsumer_connect now ch rid usr w
        = (None, w\<lparr>chat_consumers :=
                      (chat_consumers w)(ch \<mapsto> (new_chat_consumer usr rid)\<lparr>cc_closed := True\<rparr>)\<rparr>)
      \<and> map_option cc_closed (chat_consumers (snd (ChatConsumer_connect now ch rid usr w)) ch)
          = Some True
      \<and> map_option cc_accepted (chat_consumers (snd (ChatConsumer_connect now ch rid usr w)) ch)
          = Some False
      \<and> map_option cc_outbox (chat_consumers (snd (ChatConsumer_connect now ch rid usr w)) ch)
          = Some []
      \<and> chat_groups (snd (ChatConsumer_connect now ch rid usr w)) = chat_groups w
      \<and> chat_sent (snd (ChatConsumer_connect now ch rid usr w)) = chat_sent w
      \<and> users (snd (ChatConsumer_connect now ch rid usr w)) = users w)
   \<and> (\<not> is_conversation_participant (new_direct_consumer usr cid) w \<longrightarrow>
      DirectMessageConsumer_connect ch cid usr w
        = (None, w\<lparr>direct_consumers :=
                      (direct_consumers w)(ch \<mapsto> (new_direct_consumer usr cid)\<lparr>dc_closed := True\<rparr>)\<rparr>)
      \<and> map_option dc_closed (direct_consumers (snd (DirectMessageConsumer_connect ch cid usr w)) ch)
          = Some True
      \<and> map_option dc_accepted (direct_consumers (snd (DirectMessageConsumer_connect ch cid usr w)) ch)
          = Some False
      \<and> map_option dc_outbox (direct_consumers (snd (DirectMessageConsumer_connect ch cid usr w)) ch)
          = Some []
      \<and> direct_groups (snd (DirectMessageConsumer_connect ch cid usr w)) = direct_groups w
      \<and> direct_sent (snd (DirectMessageConsumer_connect ch cid usr w)) = direct_sent w
      \<and> users (snd (DirectMessageConsumer_connect ch cid usr w)) = users w)
   \<and> (rooms w rid = None \<or> usr = AnonymousUser
        \<longrightarrow> \<not> is_room_member (new_chat_consumer usr rid) w)
   \<and> (conversations w cid = None \<or> usr = AnonymousUser
        \<longrightarrow> \<not> is_conversation_participant (new_direct_consumer usr cid) w)
   \<and> chat_groups (snd (ChatConsumer_receive now' ch' fr w)) = chat_groups w
   \<and> direct_groups (snd (DirectMessageConsumer_receive now' ch' fr w)) = direct_groups w
   \<and> chat_groups (snd (ChatConsumer_disconnect now' ch' w)) g \<subseteq> chat_groups w g
   \<and> direct_groups (snd (DirectMessageConsumer_disconnect ch' w)) g \<subseteq> direct_groups w g"
proof -
  have room: "ChatConsumer_connect now ch rid usr w
        = (None, w\<lparr>chat_consumers :=
                      (chat_consumers w)(ch \<mapsto> (new_chat_consumer usr rid)\<lparr>cc_closed := True\<rparr>)\<rparr>)"
    if "\<not> is_room_member (new_chat_consumer usr rid) w"
  proof -
    have "is_room_member (new_chat_consumer usr rid)
            (w\<lparr>chat_consumers := (chat_consumers w)(ch \<mapsto> new_chat_consumer usr rid)\<rparr>)
          = is_room_member (new_chat_consumer usr rid) w"
      by (simp add: is_room_member_def)
    with that show ?thesis
      by (auto simp: ChatConsumer_connect_def Let_def chat_close_def fun_eq_iff)
  qed
  have conv: "DirectMessageConsumer_connect ch cid usr w
        = (None, w\<lparr>direct_consumers :=
                      (direct_consumers w)(ch \<mapsto> (new_direct_consumer usr cid)\<lparr>dc_closed := True\<rparr>)\<rparr>)"
    if "\<not> is_conversation_participant (new_direct_consumer usr cid) w"
  proof -
    have "is_conversation_participant (new_direct_consumer usr cid)
            (w\<lparr>direct_consumers := (direct_consumers w)(ch \<mapsto> new_direct_consumer usr cid)\<rparr>)
          = is_conversation_participant (new_direct_consumer usr cid) w"
      by (simp add: is_conversation_participant_def)
    with that show ?thesis
      by (auto simp: DirectMessageConsumer_connect_def Let_def direct_close_def fun_eq_iff)
  qed
  have no_room: "rooms w rid = None \<or> usr = AnonymousUser
        \<longrightarrow> \<not> is_room_member (new_chat_consumer usr rid) w"
    by (auto simp: is_room_member_def new_chat_consumer_def split: option.splits)
  have no_conv: "conversations w cid = None \<or> usr = AnonymousUser
        \<longrightarrow> \<not> is_conversation_participant (new_direct_consumer usr cid) w"
    by (auto simp: is_conversation_participant_def new_direct_consumer_def split: option.splits)
  show ?thesis
    using no_room no_conv
    by (simp add: room conv new_chat_consumer_def new_direct_consumer_def
          ChatConsumer_receive_groups DirectMessageConsumer_receive_groups
          ChatConsumer_disconnect_groups DirectMessageConsumer_disconnect_groups)
qed

theorem join_refused_for_non_member_witness:
  "\<not> is_room_member (new_chat_consumer (AuthUser carol) 7) world0
   \<and> \<not> is_conversation_participant (new_direct_consumer (AuthUser carol) 3) world0
   \<and> ChatConsumer_connect 40 102 7 (AuthUser carol) world0
       = (None, world0\<lparr>chat_consumers := (chat_consumers world0)
                  (102 \<mapsto> (new_chat_consumer (AuthUser carol) 7)\<lparr>cc_closed := True\<rparr>)\<rparr>)
   \<and> chat_groups (snd (ChatConsumer_connect 40 102 7 (AuthUser carol) world0)) 7 = {100, 101}
   \<and> DirectMessageConsumer_connect 202 3 (AuthUser carol) world0
       = (None, world0\<lparr>direct_consumers := (direct_consumers world0)
                  (202 \<mapsto> (new_direct_consumer (AuthUser carol) 3)\<lparr>dc_closed := True\<rparr>)\<rparr>)
   \<and> \<not> is_room_member (new_chat_consumer (AuthUser alice) 8) world0
   \<and> \<not> is_room_member (new_chat_consumer AnonymousUser 7) world0"
proof -
  have a: "\<not> is_room_member (new_chat_consumer (AuthUser carol) 7) world0"
    by (simp add: is_room_member_def new_chat_consumer_def world0_def carol_def)
  have b: "\<not> is_conversation_participant (new_direct_consumer (AuthUser carol) 3) world0"
    by (simp add: is_conversation_participant_def new_direct_consumer_def world0_def carol_def)
  have c: "rooms world0 8 = None" and g: "chat_groups world0 7 = {100, 101}"
    by (simp_all add: world0_def)
  from a b c g
    join_refused_for_non_member [where usr = "AuthUser carol" and rid = 7 and cid = 3
      and w = world0 and now = 40 and ch = 102]
    join_refused_for_non_member [where usr = "AuthUser carol" and rid = 7 and cid = 3
      and w = world0 and now = 40 and ch = 202]
    join_refused_for_non_member [where usr = "AuthUser alice" and rid = 8 and w = world0]
    join_refused_for_non_member [where usr = AnonymousUser and rid = 7 and w = world0]
  show ?thesis by simp
qed

section \<open>Create\<close>

lemma reply_target_lookup:
  "(if r = None \<or> r = Some 0 then None else map_option fst (Message_get_in_room r rid w)) = Some t
     \<longleftrightarrow> r = Some t \<and> t \<noteq> 0 \<and> (\<exists>m. messages w t = Some m \<and> room m = rid)"
  by (auto simp: Message_get_in_room_def split: option.splits if_splits)

lemma save_message_created:
  assumes "cc_user self = AuthUser u"
    and "rooms w (cc_room_id self) \<noteq> None"
    and "messages w (message_seq w + 1) = None"
  shows "save_message now self c r w =
     (Inr (Some (message_seq w + 1,
        \<lparr>room = cc_room_id self, sender = uid u, content = c,
         reply_to = (if r = None \<or> r = Some 0 then None
                     else map_option fst (Message_get_in_room r (cc_room_id self) w)),
         is_edited = False, edited_at = None, is_deleted = False, deleted_at = None,
         created_at = now, updated_at = now\<rparr>)),
      w\<lparr>messages := (messages w)(message_seq w + 1 \<mapsto>
        \<lparr>room = cc_room_id self, sender = uid u, content = c,
         reply_to = (if r = None \<or> r = Some 0 then None
                     else map_option fst (Message_get_in_room r (cc_room_id self) w)),
         is_edited = False, edited_at = None, is_deleted = False, deleted_at = None,
         created_at = now, updated_at = now\<rparr>),
        message_seq := message_seq w + 1\<rparr>)"
  using assms
  by (auto simp: save_message_def Message_objects_create_def Let_def)

lemma save_message_reply_targets:
  assumes "reply_targets_in_room w" and "save_message now self c r w = (res, w')"
  shows "reply_targets_in_room w'"
proof (cases "\<exists>u ms. cc_user self = AuthUser u \<and> rooms w (cc_room_id self) = Some ms
                 \<and> messages w (message_seq w + 1) = None")
  case False
  with assms(2) have "w' = w"
    by (auto simp: save_message_def Message_objects_create_def Let_def
          split: option.splits identity.splits if_splits)
  with assms(1) show ?thesis by simp
next
  case True
  then obtain u where u: "cc_user self = AuthUser u" "rooms w (cc_room_id self) \<noteq> None"
      "messages w (message_seq w + 1) = None"
    by auto
  let ?i = "message_seq w + 1"
  let ?rt = "if r = None \<or> r = Some 0 then None
             else map_option fst (Message_get_in_room r (cc_room_id self) w)"
  let ?m = "\<lparr>room = cc_room_id self, sender = uid u, content = c, reply_to = ?rt,
         is_edited = False, edited_at = None, is_deleted = False, deleted_at = None,
         created_at = now, updated_at = now\<rparr>"
  have ms: "messages w' = (messages w)(?i \<mapsto> ?m)"
    using assms(2) save_message_created [OF u, of now c r] by auto
  show ?thesis
    unfolding reply_targets_in_room_def
  proof (intro allI impI)
    fix j m t
    assume a: "messages w' j = Some m \<and> reply_to m = Some t"
    show "\<exists>x. messages w' t = Some x \<and> room x = room m"
    proof (cases "j = ?i")
      case True
      with a ms have m: "m = ?m" by simp
      with a have "?rt = Some t" by simp
      then obtain x where x: "messages w t = Some x" "room x = cc_room_id self"
        unfolding reply_target_lookup by blast
      with u(3) have "t \<noteq> ?i" by auto
      with x ms m show ?thesis by simp
    next
      case False
      with a ms have old: "messages w j = Some m" by simp
      with a assms(1) obtain x where x: "messages w t = Some x" "room x = room m"
        unfolding reply_targets_in_room_def by blast
      with u(3) have "t \<noteq> ?i" by auto
      with x ms show ?thesis by simp
    qed
  qed
qed

lemma handle_chat_message_reply_targets:
  assumes "reply_targets_in_room w"
  shows "reply_targets_in_room (snd (handle_chat_message now self data w))"
proof -
  have send: "reply_targets_in_room (snd (chat_group_send g ev v))" if "reply_targets_in_room v"
    for g ev v
    using that by (simp add: reply_targets_in_room_def chat_group_send_snd)
  show ?thesis
    using assms save_message_reply_targets [OF assms]
    by (auto simp: handle_chat_message_def Let_def send
          split: prod.splits sum.splits option.splits)
qed

lemma reply_targets_update_row:
  assumes "reply_targets_in_room w" and "messages w i = Some m"
    and "room m' = room m" and "reply_to m' = reply_to m"
  shows "reply_targets_in_room (w\<lparr>messages := (messages w)(i \<mapsto> m')\<rparr>)"
  unfolding reply_targets_in_room_def
proof (intro allI impI)
  fix j x t
  assume a: "messages (w\<lparr>messages := (messages w)(i \<mapsto> m')\<rparr>) j = Some x \<and> reply_to x = Some t"
  have "\<exists>y. messages w j = Some y \<and> room y = room x \<and> reply_to y = Some t"
    using a assms(2-4) by (cases "j = i") auto
  then obtain y where y: "messages w j = Some y" "room y = room x" "reply_to y = Some t"
    by blast
  with assms(1) obtain z where z: "messages w t = Some z" "room z = room y"
    unfolding reply_targets_in_room_def by blast
  show "\<exists>z. messages (w\<lparr>messages := (messages w)(i \<mapsto> m')\<rparr>) t = Some z \<and> room z = room x"
    using z y assms(2,3) by (cases "t = i") auto
qed

lemma reply_targets_cong:
  "messages w' = messages w \<Longrightarrow> reply_targets_in_room w' = reply_targets_in_room w"
  by (simp add: reply_targets_in_room_def)

lemma edit_message_reply_targets:
  assumes "reply_targets_in_room w" and "ChatConsumer_edit_message now self i c w = (res, w')"
  shows "reply_targets_in_room w'"
proof (cases "\<exists>u k m. cc_user self = AuthUser u
                \<and> Message_get_own i (cc_room_id self) (uid u) w = Some (k, m)")
  case False
  with assms(2) have "w' = w"
    by (auto simp: ChatConsumer_edit_message_def split: identity.splits option.splits)
  with assms(1) show ?thesis by simp
next
  case True
  then obtain u k m where u: "cc_user self = AuthUser u"
      and g: "Message_get_own i (cc_room_id self) (uid u) w = Some (k, m)"
    by blast
  from g have row: "messages w k = Some m" by (simp add: Message_get_own_Some)
  from assms(2) u g have "w' = w\<lparr>messages := (messages w)(k \<mapsto>
      m\<lparr>content := c, is_edited := True, edited_at := Some now, updated_at := now\<rparr>)\<rparr>"
    by (auto simp: ChatConsumer_edit_message_def Message_edit_message_eq)
  with reply_targets_update_row [OF assms(1) row] show ?thesis by simp
qed

lemma delete_message_reply_targets:
  assumes "reply_targets_in_room w" and "ChatConsumer_delete_message now self i w = (res, w')"
  shows "reply_targets_in_room w'"
proof (cases "\<exists>u k m. cc_user self = AuthUser u
                \<and> Message_get_own i (cc_room_id self) (uid u) w = Some (k, m)")
  case False
  with assms(2) have "w' = w"
    by (auto simp: ChatConsumer_delete_message_def split: identity.splits option.splits)
  with assms(1) show ?thesis by simp
next
  case True
  then obtain u k m where u: "cc_user self = AuthUser u"
      and g: "Message_get_own i (cc_room_id self) (uid u) w = Some (k, m)"
    by blast
  from g have row: "messages w k = Some m" by (simp add: Message_get_own_Some)
  from assms(2) u g have "w' = w\<lparr>messages := (messages w)(k \<mapsto>
      m\<lparr>is_deleted := True, deleted_at := Some now,
        content := ''This message was deleted'', updated_at := now\<rparr>)\<rparr>"
    by (auto simp: ChatConsumer_delete_message_def Message_delete_message_def
          Message_save_def Let_def)
  with reply_targets_update_row [OF assms(1) row] show ?thesis by simp
qed

lemma chat_group_send_reply_targets:
  "reply_targets_in_room (snd (chat_group_send g ev v)) = reply_targets_in_room v"
  by (rule reply_targets_cong) (simp add: chat_group_send_snd)

lemma handle_typing_reply_targets:
  "reply_targets_in_room w \<Longrightarrow>
     reply_targets_in_room (snd (ChatConsumer_handle_typing self data w))"
  by (simp add: ChatConsumer_handle_typing_def Let_def chat_group_send_reply_targets)

lemma handle_message_reaction_messages:
  "messages (snd (handle_message_reaction self data w)) = messages w"
proof -
  obtain r1 w1 where a: "add_message_reaction self (f_message_id data) (f_reaction_type data) w
      = (r1, w1)"
    by (cases "add_message_reaction self (f_message_id data) (f_reaction_type data) w")
  obtain r2 w2 where b: "remove_message_reaction self (f_message_id data) (f_reaction_type data) w
      = (r2, w2)"
    by (cases "remove_message_reaction self (f_message_id data) (f_reaction_type data) w")
  from add_message_reaction_layer [OF a] have m1: "messages w1 = messages w" by simp
  from remove_message_reaction_layer [OF b] have m2: "messages w2 = messages w" by simp
  show ?thesis
    by (simp add: handle_message_reaction_def Let_def a b m1 m2 chat_group_send_snd
          split: sum.splits option.splits)
qed

lemma handle_message_edit_reply_targets:
  assumes "reply_targets_in_room w"
  shows "reply_targets_in_room (snd (handle_message_edit now self data w))"
proof -
  obtain r w1 where a: "ChatConsumer_edit_message now self (f_message_id data)
      (strip (get_or (f_content data) [])) w = (r, w1)"
    by (cases "ChatConsumer_edit_message now self (f_message_id data)
      (strip (get_or (f_content data) [])) w")
  from edit_message_reply_targets [OF assms a] have "reply_targets_in_room w1" .
  with assms show ?thesis
    by (simp add: handle_message_edit_def Let_def a chat_group_send_reply_targets
          split: sum.splits option.splits)
qed

lemma handle_message_delete_reply_targets:
  assumes "reply_targets_in_room w"
  shows "reply_targets_in_room (snd (handle_message_delete now self data w))"
proof -
  obtain r w1 where a: "ChatConsumer_delete_message now self (f_message_id data) w = (r, w1)"
    by (cases "ChatConsumer_delete_message now self (f_message_id data) w")
  from delete_message_reply_targets [OF assms a] have "reply_targets_in_room w1" .
  then show ?thesis
    by (simp add: handle_message_delete_def Let_def a chat_group_send_reply_targets
          split: sum.splits option.splits)
qed

lemma ChatConsumer_receive_reply_targets:
  assumes "reply_targets_in_room w"
  shows "reply_targets_in_room (snd (ChatConsumer_receive now ch fr w))"
proof (cases "chat_consumers w ch")
  case None
  with assms show ?thesis by (simp add: ChatConsumer_receive_def)
next
  case (Some self)
  show ?thesis
  proof (cases fr)
    case Malformed
    have "messages (chat_send ch (ErrorReply ''Invalid JSON'') w) = messages w"
      by (simp add: chat_send_def)
    from reply_targets_cong [OF this] assms Some Malformed show ?thesis
      by (simp add: ChatConsumer_receive_def)
  next
    case NonObject
    with assms Some show ?thesis by (simp add: ChatConsumer_receive_def)
  next
    case Binary
    with assms Some show ?thesis by (simp add: ChatConsumer_receive_def)
  next
    case (Object data)
    have reaction: "reply_targets_in_room (snd (handle_message_reaction self data w))"
      using reply_targets_cong [OF handle_message_reaction_messages] assms by simp
    from assms Some Object reaction show ?thesis
      by (simp add: ChatConsumer_receive_def Let_def handle_chat_message_reply_targets
            handle_typing_reply_targets handle_message_edit_reply_targets
            handle_message_delete_reply_targets)
  qed
qed

lemma save_message_keeps_reply_targets:
  "reply_targets_in_room w \<Longrightarrow> reply_targets_in_room (snd (save_message now self c r w))"
  using save_message_reply_targets [of w now self c r] by (cases "save_message now self c r w") simp

text \<open>
  C6. Creating a message: a \<open>chat_message\<close> frame with non-blank content from an
  authenticated user \<open>u\<close>. If the room of the session no longer exists,
  \<^verbatim>\<open>save_message\<close> returns \<^verbatim>\<open>None\<close> and the handler leaves the state unchanged: no message
  is created and nothing is sent. If it exists (and the store hands out a fresh key),
  \<^verbatim>\<open>save_message\<close> adds one row under the next key, leaves every other row as it was
  and returns the new message: it is in the room of the session, is owned by \<open>u\<close>,
  holds the stripped content, is neither edited nor deleted, and its reply target is
  the id of the frame when that id is not 0 and names a stored message of the same
  room, and is not set otherwise. If the reply target of every stored message is a
  stored message of the same room, this is still so after \<^verbatim>\<open>save_message\<close>, after any
  \<open>chat_message\<close> frame and after any frame a room session receives. (What the handler
  does after a create that succeeded is not part of this statement: serializing the
  new message raises, so the handler ends with \<^verbatim>\<open>AttributeError\<close> and the state that
  \<^verbatim>\<open>save_message\<close> left.)
\<close>

theorem create_message:
  assumes "cc_user self = AuthUser u"
    and "strip (get_or (f_content data) []) = c"
    and "c \<noteq> []"
  shows "(rooms w (cc_room_id self) = None
            \<longrightarrow> save_message now self c (f_reply_to data) w = (Inr None, w)
              \<and> handle_chat_message now self data w = (None, w))
       \<and> (rooms w (cc_room_id self) \<noteq> None \<and> messages w (message_seq w + 1) = None
          \<longrightarrow> (\<exists>rt.
                 save_message now self c (f_reply_to data) w
                   = (Inr (Some (message_seq w + 1,
                         \<lparr>room = cc_room_id self, sender = uid u, content = c, reply_to = rt,
                          is_edited = False, edited_at = None, is_deleted = False,
                          deleted_at = None, created_at = now, updated_at = now\<rparr>)),
                      w\<lparr>messages := (messages w)(message_seq w + 1 \<mapsto>
                         \<lparr>room = cc_room_id self, sender = uid u, content = c, reply_to = rt,
                          is_edited = False, edited_at = None, is_deleted = False,
                          deleted_at = None, created_at = now, updated_at = now\<rparr>),
                        message_seq := message_seq w + 1\<rparr>)
                 \<and> (\<forall>t. rt = Some t \<longleftrightarrow>
                        f_reply_to data = Some t \<and> t \<noteq> 0
                        \<and> (\<exists>m. messages w t = Some m \<and> room m = cc_room_id self))
                 \<and> handle_chat_message now self data w
                     = (Some AttributeError, snd (save_message now self c (f_reply_to data) w))))
       \<and> (reply_targets_in_room w
            \<longrightarrow> reply_targets_in_room (snd (save_message now' self' c' r' w))
              \<and> reply_targets_in_room (snd (handle_chat_message now' self' data' w))
              \<and> reply_targets_in_room (snd (ChatConsumer_receive now' ch' fr w)))"
proof (intro conjI impI)
  assume "rooms w (cc_room_id self) = None"
  then show "save_message now self c (f_reply_to data) w = (Inr None, w)"
    by (simp add: save_message_def)
next
  assume "rooms w (cc_room_id self) = None"
  with assms show "handle_chat_message now self data w = (None, w)"
    by (simp add: handle_chat_message_def save_message_def)
next
  let ?rt = "if f_reply_to data = None \<or> f_reply_to data = Some 0 then None
             else map_option fst (Message_get_in_room (f_reply_to data) (cc_room_id self) w)"
  let ?m = "\<lparr>room = cc_room_id self, sender = uid u, content = c, reply_to = ?rt,
         is_edited = False, edited_at = None, is_deleted = False, deleted_at = None,
         created_at = now, updated_at = now\<rparr>"
  let ?w1 = "w\<lparr>messages := (messages w)(message_seq w + 1 \<mapsto> ?m),
                message_seq := message_seq w + 1\<rparr>"
  assume ok: "rooms w (cc_room_id self) \<noteq> None \<and> messages w (message_seq w + 1) = None"
  then have saved: "save_message now self c (f_reply_to data) w
      = (Inr (Some (message_seq w + 1, ?m)), ?w1)"
    using save_message_created [OF assms(1), of w now c "f_reply_to data"] by simp
  have run: "handle_chat_message now self data w
      = (Some AttributeError, snd (save_message now self c (f_reply_to data) w))"
    using assms saved
    by (simp add: handle_chat_message_def serialize_message_def get_reaction_counts_def)
  have rt: "\<forall>t. ?rt = Some t \<longleftrightarrow>
                        f_reply_to data = Some t \<and> t \<noteq> 0
                        \<and> (\<exists>m. messages w t = Some m \<and> room m = cc_room_id self)"
    unfolding reply_target_lookup by simp
  from saved rt run
  show "\<exists>rt.
                 save_message now self c (f_reply_to data) w
                   = (Inr (Some (message_seq w + 1,
                         \<lparr>room = cc_room_id self, sender = uid u, content = c, reply_to = rt,
                          is_edited = False, edited_at = None, is_deleted = False,
                          deleted_at = None, created_at = now, updated_at = now\<rparr>)),
                      w\<lparr>messages := (messages w)(message_seq w + 1 \<mapsto>
                         \<lparr>room = cc_room_id self, sender = uid u, content = c, reply_to = rt,
                          is_edited = False, edited_at = None, is_deleted = False,
                          deleted_at = None, created_at = now, updated_at = now\<rparr>),
                        message_seq := message_seq w + 1\<rparr>)
                 \<and> (\<forall>t. rt = Some t \<longleftrightarrow>
                        f_reply_to data = Some t \<and> t \<noteq> 0
                        \<and> (\<exists>m. messages w t = Some m \<and> room m = cc_room_id self))
                 \<and> handle_chat_message now self data w
                     = (Some AttributeError, snd (save_message now self c (f_reply_to data) w))"
    by blast
next
  assume "reply_targets_in_room w"
  then show "reply_targets_in_room (snd (save_message now' self' c' r' w))"
    by (rule save_message_keeps_reply_targets)
next
  assume "reply_targets_in_room w"
  then show "reply_targets_in_room (snd (handle_chat_message now' self' data' w))"
    by (rule handle_chat_message_reply_targets)
next
  assume "reply_targets_in_room w"
  then show "reply_targets_in_room (snd (ChatConsumer_receive now' ch' fr w))"
    by (rule ChatConsumer_receive_reply_targets)
qed

theorem create_message_witness:
  "save_message 50 (room_session alice) ''re: hi'' (Some 1) (world0\<lparr>rooms := Map.empty\<rparr>)
     = (Inr None, world0\<lparr>rooms := Map.empty\<rparr>)
   \<and> handle_chat_message 50 (room_session alice) reply_frame (world0\<lparr>rooms := Map.empty\<rparr>)
     = (None, world0\<lparr>rooms := Map.empty\<rparr>)
   \<and> save_message 50 (room_session alice) ''re: hi'' (Some 1) world0
     = (Inr (Some (2,
          \<lparr>room = 7, sender = 1, content = ''re: hi'', reply_to = Some 1,
           is_edited = False, edited_at = None, is_deleted = False,
           deleted_at = None, created_at = 50, updated_at = 50\<rparr>)),
        world0\<lparr>messages := (messages world0)(2 \<mapsto>
          \<lparr>room = 7, sender = 1, content = ''re: hi'', reply_to = Some 1,
           is_edited = False, edited_at = None, is_deleted = False,
           deleted_at = None, created_at = 50, updated_at = 50\<rparr>),
          message_seq := 2\<rparr>)
   \<and> reply_targets_in_room world0
   \<and> reply_targets_in_room (snd (save_message 50 (room_session alice) ''re: hi'' (Some 1) world0))
   \<and> reply_targets_in_room (snd (ChatConsumer_receive 50 100 (Object reply_frame) world0))"
proof -
  have a: "cc_user (room_session alice) = AuthUser alice"
    by (simp add: room_session_def)
  have c: "strip (get_or (f_content reply_frame) []) = ''re: hi''"
    by (simp add: reply_frame_def tagged_def get_or_def strip_def isspace_def)
  have ne: "''re: hi'' \<noteq> []" by simp
  have gone: "rooms (world0\<lparr>rooms := Map.empty\<rparr>) (cc_room_id (room_session alice)) = None"
    by simp
  have ok: "rooms world0 (cc_room_id (room_session alice)) \<noteq> None
            \<and> messages world0 (message_seq world0 + 1) = None"
    by (simp add: world0_def room_session_def)
  have inv: "reply_targets_in_room world0"
    by (simp add: reply_targets_in_room_def world0_def msg1_def)
  have f: "cc_room_id (room_session alice) = 7" "uid alice = 1" "message_seq world0 + 1 = 2"
      "f_reply_to reply_frame = Some 1"
    by (simp_all add: room_session_def alice_def world0_def reply_frame_def tagged_def)
  have target: "f_reply_to reply_frame = Some 1 \<and> (1::int) \<noteq> 0
      \<and> (\<exists>m. messages world0 1 = Some m \<and> room m = cc_room_id (room_session alice))"
    by (simp add: reply_frame_def tagged_def world0_def msg1_def room_session_def)
  note thm1 = create_message [OF a c ne, where w = "world0\<lparr>rooms := Map.empty\<rparr>" and now = 50]
  note thm2 = create_message [OF a c ne, where w = world0 and now = 50 and now' = 50
      and self' = "room_session alice" and c' = "''re: hi''" and r' = "Some 1"
      and ch' = 100 and fr = "Object reply_frame"]
  from thm1 gone
  have 1: "save_message 50 (room_session alice) ''re: hi'' (f_reply_to reply_frame)
        (world0\<lparr>rooms := Map.empty\<rparr>)
     = (Inr None, world0\<lparr>rooms := Map.empty\<rparr>)
     \<and> handle_chat_message 50 (room_session alice) reply_frame (world0\<lparr>rooms := Map.empty\<rparr>)
     = (None, world0\<lparr>rooms := Map.empty\<rparr>)"
    by blast
  from thm2 ok obtain rt where r:
      "save_message 50 (room_session alice) ''re: hi'' (f_reply_to reply_frame) world0
         = (Inr (Some (message_seq world0 + 1,
              \<lparr>room = cc_room_id (room_session alice), sender = uid alice, content = ''re: hi'',
               reply_to = rt, is_edited = False, edited_at = None, is_deleted = False,
               deleted_at = None, created_at = 50, updated_at = 50\<rparr>)),
            world0\<lparr>messages := (messages world0)(message_seq world0 + 1 \<mapsto>
              \<lparr>room = cc_room_id (room_session alice), sender = uid alice, content = ''re: hi'',
               reply_to = rt, is_edited = False, edited_at = None, is_deleted = False,
               deleted_at = None, created_at = 50, updated_at = 50\<rparr>),
              message_seq := message_seq world0 + 1\<rparr>)"
      "\<forall>t. rt = Some t \<longleftrightarrow> f_reply_to reply_frame = Some t \<and> t \<noteq> 0
          \<and> (\<exists>m. messages world0 t = Some m \<and> room m = cc_room_id (room_session alice))"
    by blast
  from r(2) target have "rt = Some 1" by blast
  with r(1) f have 2: "save_message 50 (room_session alice) ''re: hi'' (Some 1) world0
     = (Inr (Some (2,
          \<lparr>room = 7, sender = 1, content = ''re: hi'', reply_to = Some 1,
           is_edited = False, edited_at = None, is_deleted = False,
           deleted_at = None, created_at = 50, updated_at = 50\<rparr>)),
        world0\<lparr>messages := (messages world0)(2 \<mapsto>
          \<lparr>room = 7, sender = 1, content = ''re: hi'', reply_to = Some 1,
           is_edited = False, edited_at = None, is_deleted = False,
           deleted_at = None, created_at = 50, updated_at = 50\<rparr>),
          message_seq := 2\<rparr>)"
    by simp
  from thm2 inv
  have 3: "reply_targets_in_room (snd (save_message 50 (room_session alice) ''re: hi'' (Some 1) world0))
     \<and> reply_targets_in_room (snd (ChatConsumer_receive 50 100 (Object reply_frame) world0))"
    by blast
  from 1 2 3 inv f(4) show ?thesis by simp
qed

section \<open>Fanout and sender exclusion\<close>

lemma ChatConsumer_dispatch_eq:
  "ChatConsumer_dispatch c ev =
     (if \<exists>t. ev = TypingIndicator (username_of (cc_user c)) t then [] else [Frame ev])"
  by (cases ev)
     (auto simp: chat_message_def ChatConsumer_typing_indicator_def message_reaction_def
        message_edited_def message_deleted_def)

lemma DirectMessageConsumer_dispatch_eq:
  "DirectMessageConsumer_dispatch d ev =
     (if (\<exists>t. ev = DirectTypingIndicator (username_of (dc_user d)) t)
         \<or> (\<exists>ids. ev = MessagesRead ids (username_of (dc_user d)))
      then [] else [Frame ev])"
  by (cases ev)
     (auto simp: direct_message_def DirectMessageConsumer_typing_indicator_def messages_read_def)

lemma receive_from_alice:
  "ChatConsumer_receive now 100 (Object reply_frame) world0
     = handle_chat_message now (room_session alice) reply_frame world0"
  "ChatConsumer_receive now 100 (Object delete_frame) world0
     = handle_message_delete now (room_session alice) delete_frame world0"
  "ChatConsumer_receive now 100 (Object like_frame) world0
     = handle_message_reaction (room_session alice) like_frame world0"
  "ChatConsumer_receive now 100 (Object typing_frame) world0
     = ChatConsumer_handle_typing (room_session alice) typing_frame world0"
  "DirectMessageConsumer_receive now 200 (Object direct_frame) world0
     = handle_direct_message now (direct_session alice) direct_frame world0"
  "DirectMessageConsumer_receive now 200 (Object read_frame) world0
     = handle_message_read now (direct_session alice) read_frame world0"
  by (simp_all add: ChatConsumer_receive_def DirectMessageConsumer_receive_def Let_def world0_def
        reply_frame_def delete_frame_def like_frame_def typing_frame_def direct_frame_def
        read_frame_def tagged_def)

lemma chat_message_from_alice:
  "handle_chat_message 50 (room_session alice) reply_frame world0
     = (Some AttributeError,
        world0\<lparr>messages := (messages world0)(2 \<mapsto>
          \<lparr>room = 7, sender = 1, content = ''re: hi'', reply_to = Some 1,
           is_edited = False, edited_at = None, is_deleted = False,
           deleted_at = None, created_at = 50, updated_at = 50\<rparr>),
          message_seq := 2\<rparr>)"
  by (simp add: handle_chat_message_def save_message_def Message_objects_create_def
        Message_get_in_room_def serialize_message_def get_reaction_counts_def Let_def
        reply_frame_def tagged_def get_or_def strip_def isspace_def room_session_def
        alice_def world0_def msg1_def)

lemma delete_from_alice:
  "fst (handle_message_delete 50 (room_session alice) delete_frame world0) = None"
  "map_option cc_outbox
     (chat_consumers (snd (handle_message_delete 50 (room_session alice) delete_frame world0)) 100)
     = Some [Frame (MessageDeleted (Some 1))]"
  "map_option cc_outbox
     (chat_consumers (snd (handle_message_delete 50 (room_session alice) delete_frame world0)) 101)
     = Some [Frame (MessageDeleted (Some 1))]"
  by (simp_all add: handle_message_delete_def ChatConsumer_delete_message_def
        Message_get_own_def Message_get_in_room_def Message_delete_message_def Message_save_def
        chat_group_send_def message_deleted_def Let_def delete_frame_def tagged_def
        room_session_def alice_def bob_def world0_def msg1_def)

lemma reaction_from_alice:
  "fst (handle_message_reaction (room_session alice) like_frame world0) = None"
  "map_option cc_outbox
     (chat_consumers (snd (handle_message_reaction (room_session alice) like_frame world0)) 100)
     = Some [Frame (MessageReaction (Some 1) (Some ''like'') ''add'' ''alice'')]"
  "map_option cc_outbox
     (chat_consumers (snd (handle_message_reaction (room_session alice) like_frame world0)) 101)
     = Some [Frame (MessageReaction (Some 1) (Some ''like'') ''add'' ''alice'')]"
  by (simp_all add: handle_message_reaction_def add_message_reaction_def
        MessageReaction_get_or_create_def Message_get_in_room_def
        chat_group_send_def message_reaction_def Let_def like_frame_def tagged_def get_or_def
        username_of_def room_session_def alice_def bob_def world0_def msg1_def)

lemma typing_from_alice:
  "fst (ChatConsumer_handle_typing (room_session alice) typing_frame world0) = None"
  "map_option cc_outbox
     (chat_consumers (snd (ChatConsumer_handle_typing (room_session alice) typing_frame world0)) 100)
     = Some []"
  "map_option cc_outbox
     (chat_consumers (snd (ChatConsumer_handle_typing (room_session alice) typing_frame world0)) 101)
     = Some [Frame (TypingIndicator ''alice'' True)]"
  by (simp_all add: ChatConsumer_handle_typing_def chat_group_send_def
        ChatConsumer_typing_indicator_def Let_def typing_frame_def tagged_def get_or_def
        username_of_def room_session_def alice_def bob_def world0_def)

lemma direct_message_from_alice:
  "fst (handle_direct_message 50 (direct_session alice) direct_frame world0) = None"
  "map_option dc_outbox
     (direct_consumers (snd (handle_direct_message 50 (direct_session alice) direct_frame world0))
        200)
     = Some [Frame (DirectMessage (2,
         \<lparr>dm_sender = 1, dm_recipient = 2, dm_content = ''hello bob'', dm_is_read = False,
          dm_read_at = None, dm_is_edited = False, dm_edited_at = None,
          dm_is_deleted = False, dm_deleted_at = None,
          dm_created_at = 50, dm_updated_at = 50\<rparr>))]"
  "map_option dc_outbox
     (direct_consumers (snd (handle_direct_message 50 (direct_session alice) direct_frame world0))
        201)
     = Some [Frame (DirectMessage (2,
         \<lparr>dm_sender = 1, dm_recipient = 2, dm_content = ''hello bob'', dm_is_read = False,
          dm_read_at = None, dm_is_edited = False, dm_edited_at = None,
          dm_is_deleted = False, dm_deleted_at = None,
          dm_created_at = 50, dm_updated_at = 50\<rparr>))]"
  by (simp_all add: handle_direct_message_def save_direct_message_def
        DirectMessage_objects_create_def get_other_participant_def serialize_direct_message_def
        direct_group_send_def direct_message_def Let_def direct_frame_def tagged_def get_or_def
        strip_def isspace_def direct_session_def alice_def bob_def world0_def)

text \<open>
  C7. The specification says: only typing indicators and read receipts are kept from
  the session that sent them; every other event, the sender's own chat message, direct
  message, reaction, edit and delete included, is delivered to the sender and to every
  other session of the group. In the example state alice (channel 100) and bob
  (channel 101) are in the group of room 7, and their conversation sessions (channels
  200 and 201) in the group of conversation 3. Alice's chat message is stored, but
  serializing it raises \<^verbatim>\<open>AttributeError\<close> before \<^verbatim>\<open>group_send\<close>: nothing is sent to the
  group and neither alice nor bob gets a frame. Her delete and her reaction reach both
  sessions, her own included; her typing indicator reaches bob only; her direct message
  reaches both sessions of the conversation; her read receipt is never sent, since
  marking the messages raises first.
\<close>

theorem own_chat_message_reaches_no_session:
  "ChatConsumer_receive 50 100 (Object reply_frame) world0
     = (Some AttributeError,
        world0\<lparr>messages := (messages world0)(2 \<mapsto>
          \<lparr>room = 7, sender = 1, content = ''re: hi'', reply_to = Some 1,
           is_edited = False, edited_at = None, is_deleted = False,
           deleted_at = None, created_at = 50, updated_at = 50\<rparr>),
          message_seq := 2\<rparr>)
   \<and> chat_sent (snd (ChatConsumer_receive 50 100 (Object reply_frame) world0)) = []
   \<and> map_option cc_outbox
        (chat_consumers (snd (ChatConsumer_receive 50 100 (Object reply_frame) world0)) 100)
       = Some []
   \<and> map_option cc_outbox
        (chat_consumers (snd (ChatConsumer_receive 50 100 (Object reply_frame) world0)) 101)
       = Some []
   \<and> fst (ChatConsumer_receive 50 100 (Object delete_frame) world0) = None
   \<and> map_option cc_outbox
        (chat_consumers (snd (ChatConsumer_receive 50 100 (Object delete_frame) world0)) 100)
       = Some [Frame (MessageDeleted (Some 1))]
   \<and> map_option cc_outbox
        (chat_consumers (snd (ChatConsumer_receive 50 100 (Object delete_frame) world0)) 101)
       = Some [Frame (MessageDeleted (Some 1))]
   \<and> map_option cc_outbox
        (chat_consumers (snd (ChatConsumer_receive 50 100 (Object like_frame) world0)) 100)
       = Some [Frame (MessageReaction (Some 1) (Some ''like'') ''add'' ''alice'')]
   \<and> map_option cc_outbox
        (chat_consumers (snd (ChatConsumer_receive 50 100 (Object like_frame) world0)) 101)
       = Some [Frame (MessageReaction (Some 1) (Some ''like'') ''add'' ''alice'')]
   \<and> map_option cc_outbox
        (chat_consumers (snd (ChatConsumer_receive 50 100 (Object typing_frame) world0)) 100)
       = Some []
   \<and> map_option cc_outbox
        (chat_consumers (snd (ChatConsumer_receive 50 100 (Object typing_frame) world0)) 101)
       = Some [Frame (TypingIndicator ''alice'' True)]
   \<and> map_option dc_outbox
        (direct_consumers (snd (DirectMessageConsumer_receive 50 200 (Object direct_frame) world0))
           200)
       = Some [Frame (DirectMessage (2,
           \<lparr>dm_sender = 1, dm_recipient = 2, dm_content = ''hello bob'', dm_is_read = False,
            dm_read_at = None, dm_is_edited = False, dm_edited_at = None,
            dm_is_deleted = False, dm_deleted_at = None,
            dm_created_at = 50, dm_updated_at = 50\<rparr>))]
   \<and> map_option dc_outbox
        (direct_consumers (snd (DirectMessageConsumer_receive 50 200 (Object direct_frame) world0))
           201)
       = Some [Frame (DirectMessage (2,
           \<lparr>dm_sender = 1, dm_recipient = 2, dm_content = ''hello bob'', dm_is_read = False,
            dm_read_at = None, dm_is_edited = False, dm_edited_at = None,
            dm_is_deleted = False, dm_deleted_at = None,
            dm_created_at = 50, dm_updated_at = 50\<rparr>))]
   \<and> DirectMessageConsumer_receive 50 200 (Object read_frame) world0
       = (Some AttributeError, world0)"
proof -
  have w: "chat_sent world0 = []"
      "chat_consumers world0 100 = Some (room_session alice)"
      "chat_consumers world0 101 = Some (room_session bob)"
      "cc_outbox (room_session alice) = []" "cc_outbox (room_session bob) = []"
    by (simp_all add: world0_def room_session_def)
  have r: "handle_message_read 50 (direct_session alice) read_frame world0
      = (Some AttributeError, world0)"
    by (simp add: handle_message_read_def mark_messages_as_read_def consumers_timezone_now_def
          read_frame_def tagged_def get_or_def direct_session_def)
  show ?thesis
    unfolding receive_from_alice
    using w r
    by (simp add: chat_message_from_alice delete_from_alice reaction_from_alice
          typing_from_alice direct_message_from_alice)
qed

section \<open>Unknown tags and malformed frames\<close>

lemma receive_unknown_tag_or_undecodable:
  "(chat_consumers w ch = Some self \<longrightarrow>
      (f_type data \<noteq> Some ''chat_message'' \<and> f_type data \<noteq> Some ''typing''
       \<and> f_type data \<noteq> Some ''message_reaction'' \<and> f_type data \<noteq> Some ''message_edit''
       \<and> f_type data \<noteq> Some ''message_delete''
         \<longrightarrow> ChatConsumer_receive now ch (Object data) w = (None, w))
      \<and> ChatConsumer_receive now ch Malformed w
          = (None, w\<lparr>chat_consumers := (chat_consumers w)(ch \<mapsto>
                self\<lparr>cc_outbox := cc_outbox self @ [ErrorReply ''Invalid JSON'']\<rparr>)\<rparr>))
   \<and> (direct_consumers w ch = Some dself \<longrightarrow>
      (f_type data \<noteq> Some ''direct_message'' \<and> f_type data \<noteq> Some ''typing''
       \<and> f_type data \<noteq> Some ''message_read''
         \<longrightarrow> DirectMessageConsumer_receive now ch (Object data) w = (None, w))
      \<and> DirectMessageConsumer_receive now ch Malformed w
          = (None, w\<lparr>direct_consumers := (direct_consumers w)(ch \<mapsto>
                dself\<lparr>dc_outbox := dc_outbox dself @ [ErrorReply ''Invalid JSON'']\<rparr>)\<rparr>))"
proof -
  have room: "ChatConsumer_receive now ch Malformed w
          = (None, w\<lparr>chat_consumers := (chat_consumers w)(ch \<mapsto>
                self\<lparr>cc_outbox := cc_outbox self @ [ErrorReply ''Invalid JSON'']\<rparr>)\<rparr>)"
    if "chat_consumers w ch = Some self"
  proof -
    have "(\<lambda>c. if c = ch
            then map_option (\<lambda>s. s\<lparr>cc_outbox := cc_outbox s @ [ErrorReply ''Invalid JSON'']\<rparr>)
                   (chat_consumers w c)
            else chat_consumers w c)
          = (chat_consumers w)(ch \<mapsto>
                self\<lparr>cc_outbox := cc_outbox self @ [ErrorReply ''Invalid JSON'']\<rparr>)"
      using that by (auto simp: fun_eq_iff)
    with that show ?thesis
      by (simp add: ChatConsumer_receive_def chat_send_def)
  qed
  have direct: "DirectMessageConsumer_receive now ch Malformed w
          = (None, w\<lparr>direct_consumers := (direct_consumers w)(ch \<mapsto>
                dself\<lparr>dc_outbox := dc_outbox dself @ [ErrorReply ''Invalid JSON'']\<rparr>)\<rparr>)"
    if "direct_consumers w ch = Some dself"
  proof -
    have "(\<lambda>c. if c = ch
            then map_option (\<lambda>s. s\<lparr>dc_outbox := dc_outbox s @ [ErrorReply ''Invalid JSON'']\<rparr>)
                   (direct_consumers w c)
            else direct_consumers w c)
          = (direct_consumers w)(ch \<mapsto>
                dself\<lparr>dc_outbox := dc_outbox dself @ [ErrorReply ''Invalid JSON'']\<rparr>)"
      using that by (auto simp: fun_eq_iff)
    with that show ?thesis
      by (simp add: DirectMessageConsumer_receive_def direct_send_def)
  qed
  have room_tag: "ChatConsumer_receive now ch (Object data) w = (None, w)"
    if "chat_consumers w ch = Some self"
      and "f_type data \<noteq> Some ''chat_message'' \<and> f_type data \<noteq> Some ''typing''
       \<and> f_type data \<noteq> Some ''message_reaction'' \<and> f_type data \<noteq> Some ''message_edit''
       \<and> f_type data \<noteq> Some ''message_delete''"
    using that by (simp add: ChatConsumer_receive_def Let_def)
  have direct_tag: "DirectMessageConsumer_receive now ch (Object data) w = (None, w)"
    if "direct_consumers w ch = Some dself"
      and "f_type data \<noteq> Some ''direct_message'' \<and> f_type data \<noteq> Some ''typing''
       \<and> f_type data \<noteq> Some ''message_read''"
    using that by (simp add: DirectMessageConsumer_receive_def Let_def)
  from room direct room_tag direct_tag show ?thesis by blast
qed

lemma receive_not_text_object:
  "chat_consumers w ch = Some self \<Longrightarrow>
     ChatConsumer_receive now ch NonObject w = (Some AttributeError, w)
     \<and> ChatConsumer_receive now ch Binary w = (Some TypeError, w)"
  "direct_consumers w ch = Some dself \<Longrightarrow>
     DirectMessageConsumer_receive now ch NonObject w = (Some AttributeError, w)
     \<and> DirectMessageConsumer_receive now ch Binary w = (Some TypeError, w)"
  by (simp_all add: ChatConsumer_receive_def DirectMessageConsumer_receive_def)

text \<open>
  C8. The specification says: on an open session a frame with an unrecognized tag is
  ignored, a malformed frame gets exactly one error reply, and in neither case is the
  connection closed. \<^verbatim>\<open>receive\<close> answers a frame that \<^verbatim>\<open>json.loads\<close> rejects with the one
  \<open>Invalid JSON\<close> reply and ignores an object with an unknown tag, but it catches
  \<^verbatim>\<open>JSONDecodeError\<close> only. In the example state, a text frame that decodes to
  something other than an object (a list, a string, a number) makes \<^verbatim>\<open>data.get\<close> raise
  \<^verbatim>\<open>AttributeError\<close>, and a binary frame makes the call of \<^verbatim>\<open>receive\<close> raise
  \<^verbatim>\<open>TypeError\<close>: no error reply is sent (the state is as it was) and the exception
  leaves \<^verbatim>\<open>receive\<close>, for the room session and for the conversation session alike.
\<close>

theorem non_object_frame_raises:
  "ChatConsumer_receive 70 100 NonObject world0 = (Some AttributeError, world0)
   \<and> DirectMessageConsumer_receive 70 200 NonObject world0 = (Some AttributeError, world0)
   \<and> ChatConsumer_receive 70 100 Binary world0 = (Some TypeError, world0)
   \<and> DirectMessageConsumer_receive 70 200 Binary world0 = (Some TypeError, world0)
   \<and> map_option cc_outbox (chat_consumers world0 100) = Some []
   \<and> map_option dc_outbox (direct_consumers world0 200) = Some []
   \<and> map_option cc_outbox
        (chat_consumers (snd (ChatConsumer_receive 70 100 Malformed world0)) 100)
       = Some [ErrorReply ''Invalid JSON'']
   \<and> ChatConsumer_receive 70 100 (Object (tagged ''ping'')) world0 = (None, world0)"
  by (simp add: ChatConsumer_receive_def DirectMessageConsumer_receive_def chat_send_def
        Let_def tagged_def world0_def room_session_def direct_session_def)

section \<open>Presence\<close>
















end
